theory Spec2Isabelle
  imports Main "HOL-Library.Sublist"
begin

section \<open>Domain model (package expo, types.go)\<close>

text \<open>
  Go strings are byte sequences; \<open>string\<close> (a list of 8-bit characters) models them, and
  \<open>length\<close> is Go's \<open>len\<close>. \<open>Platform\<close> and \<open>Status\<close> are named string types.
\<close>

type_synonym Platform = string
type_synonym Status = string

definition PlatformAndroid :: Platform where "PlatformAndroid = ''android''"
definition PlatformIOS :: Platform where "PlatformIOS = ''ios''"

definition StatusFinished :: Status where "StatusFinished = ''finished''"
definition StatusCancelled :: Status where "StatusCancelled = ''cancelled''"
definition StatusErrored :: Status where "StatusErrored = ''errored''"

record Error =
  Message :: string
  ErrorCode :: string

definition Failed :: "Error \<Rightarrow> bool" where
  "Failed e = (ErrorCode e \<noteq> '''' \<or> Message e \<noteq> '''')"

definition Error_string :: "Error \<Rightarrow> string" where
  "Error_string e = ErrorCode e @ '': '' @ Message e"

record BuildVersionMetadata =
  Channel :: string
  AppVersion :: string
  AppBuildVersion :: string
  GitCommitHash :: string

record Build =
  Build_Id :: string
  Build_Status :: Status
  Build_Platform :: Platform
  Build_Error :: Error
  Build_CreatedAt :: string
  Build_Metadata :: BuildVersionMetadata

record BranchFragment =
  Branch_Id :: string
  Branch_Name :: string

record Update =
  Update_Id :: string
  Update_Group :: string
  Update_Platform :: Platform
  Update_GitCommitHash :: string
  Update_Branch :: BranchFragment
  Update_CreatedAt :: string

record UpdateBranch =
  UpdateBranch_Id :: string
  UpdateBranch_Name :: string
  UpdateGroups :: "Update list list"

record UpdateChannel =
  UpdateChannel_Id :: string
  UpdateChannel_Name :: string
  UpdateBranches :: "UpdateBranch list"

record App =
  App_Id :: string
  App_Name :: string

record Submission =
  Submission_Id :: string
  Submission_App :: App
  SubmittedBuild :: Build

section \<open>Display lookups (package expo, submissions.go)\<close>

text \<open>Each \<open>switch\<close> compares the argument with the constants by \<open>==\<close>, byte for byte.\<close>

definition PlatformEmoji :: "Platform \<Rightarrow> string" where
  "PlatformEmoji platform =
     (if platform = PlatformAndroid then '':android:''
      else if platform = PlatformIOS then '':apple_logo:''
      else '':grey_question:'')"

definition PlatformDisplay :: "Platform \<Rightarrow> string" where
  "PlatformDisplay platform =
     (if platform = PlatformAndroid then ''Android''
      else if platform = PlatformIOS then ''iOS''
      else ''Unknown platform '')"

definition StatusEmoji :: "Status \<Rightarrow> string" where
  "StatusEmoji status =
     (if status = StatusFinished then '':large_green_circle:''
      else if status = StatusCancelled then '':large_yellow_circle:''
      else if status = StatusErrored then '':red_circle:''
      else '':black_circle:'')"

definition StatusDisplay :: "Status \<Rightarrow> string" where
  "StatusDisplay status =
     (if status = StatusFinished then ''succeeded''
      else if status = StatusCancelled then ''cancelled''
      else if status = StatusErrored then ''errored''
      else ''in an unknown state'')"

definition FormatTitle :: "string \<Rightarrow> string \<Rightarrow> Platform \<Rightarrow> Status \<Rightarrow> string" where
  "FormatTitle emoji name platform status =
     emoji @ '' '' @ PlatformEmoji platform @ '' '' @ StatusEmoji status @ '' | ''
       @ PlatformDisplay platform @ '' '' @ name @ '' '' @ StatusDisplay status @ ''.''"

section \<open>The environment of a handler run\<close>

text \<open>
  What the handlers take from outside the repository is a parameter of the model:
  \<^item> \<open>EqualFold\<close> is \<open>strings.EqualFold\<close>;
  \<^item> \<open>ParseRFC3339 s\<close> is \<open>time.Parse(time.RFC3339, s)\<close>: the instant in nanoseconds,
    or \<open>None\<close> where Go returns an error; \<open>Time.After\<close> is \<open><\<close> on instants;
  \<^item> \<open>Now\<close> is the clock read by \<open>time.Since\<close>; one reading stands for every call
    of \<open>time.Since\<close> in a run, which only affects the elapsed times that are rendered;
  \<^item> \<open>LookupEnv\<close> is \<open>os.LookupEnv\<close>;
  \<^item> \<open>HmacSha1 key msg\<close> is the digest of \<open>crypto/hmac\<close> over \<open>crypto/sha1\<close>, a list
    of byte values;
  \<^item> the three \<open>Unmarshal\<close> fields are \<open>json.Unmarshal\<close> into the route's payload type;
  \<^item> the four \<open>Fetch\<close> fields are the answers of the upstream API to the client's
    queries.
  The answer of the chat service to a posted message is only logged by the handlers, so
  it is not a parameter.
\<close>

datatype error =
    Upstream string
  | FailedToParseCreatedAt
  | FailedToParseCreatedAtFor string
  | FailedToFetchUpdates error
  | FailedToFetchUpdateChannel error
  | FailedToFetchBuildList error
  | FailedToFindUpdateBranch Platform

datatype Block = HeaderBlock string | SectionBlock string

record update_Update =
  upd_Id :: string
  upd_AppId :: string
  upd_Group :: string
  upd_CreatedAt :: string
  upd_Branch :: string
  upd_Platform :: Platform
  upd_GitCommitHash :: string

record build_Metadata =
  AppName :: string
  Version :: BuildVersionMetadata

record build_WebhookPayload =
  bld_Id :: string
  bld_AppId :: string
  bld_Details :: string
  bld_Platform :: Platform
  bld_Status :: Status
  bld_Metadata :: build_Metadata
  bld_Error :: Error
  bld_CreatedAt :: string

record submit_Info =
  Info_Error :: Error

record submit_WebhookPayload =
  sub_Id :: string
  sub_Details :: string
  sub_Platform :: Platform
  sub_Status :: Status
  sub_Info :: submit_Info

record world =
  EqualFold :: "string \<Rightarrow> string \<Rightarrow> bool"
  ParseRFC3339 :: "string \<Rightarrow> int option"
  Now :: int
  LookupEnv :: "string \<Rightarrow> string option"
  HmacSha1 :: "string \<Rightarrow> string \<Rightarrow> nat list"
  UnmarshalUpdates :: "string \<Rightarrow> update_Update list option"
  UnmarshalBuild :: "string \<Rightarrow> build_WebhookPayload option"
  UnmarshalSubmit :: "string \<Rightarrow> submit_WebhookPayload option"
  FetchBuilds :: "string \<Rightarrow> string \<Rightarrow> Platform \<Rightarrow> int \<Rightarrow> int \<Rightarrow> error + Build list"
  FetchSubmission :: "string \<Rightarrow> error + Submission"
  FetchUpdateChannel :: "string \<Rightarrow> string \<Rightarrow> error + UpdateChannel"
  FetchUpdates :: "string \<Rightarrow> string \<Rightarrow> int \<Rightarrow> int \<Rightarrow> error + Update list list"

record Config =
  ExpoHMACSecret :: string
  SlackChannel :: string

text \<open>
  What a run does to the outside, in order: the status written to the response, the
  queries sent upstream and the messages posted to the chat channel. Log lines are not
  part of the model.
\<close>

datatype event =
    WriteHeader nat
  | CallFetchBuilds string string Platform int int
  | CallFetchSubmission string
  | CallFetchUpdateChannel string string
  | CallFetchUpdates string string int int
  | CallPostMessage string "Block list"

definition Platform_Equal :: "world \<Rightarrow> Platform \<Rightarrow> Platform \<Rightarrow> bool" where
  "Platform_Equal w p other = EqualFold w p other"

section \<open>Previous-event resolution, package update\<close>

text \<open>
  The inner loop of \<open>previousUpdateFor\<close> over the members of one group: \<open>None\<close> when
  the loop runs to its end, \<open>Some r\<close> when it returns \<open>r\<close>.
\<close>

fun update_scanGroup :: "world \<Rightarrow> Platform \<Rightarrow> int \<Rightarrow> Update list \<Rightarrow> (error + Update) option" where
  "update_scanGroup w platform createdAt [] = None"
| "update_scanGroup w platform createdAt (u # us) =
     (if \<not> Platform_Equal w (Update_Platform u) platform
      then update_scanGroup w platform createdAt us
      else case ParseRFC3339 w (Update_CreatedAt u) of
             None \<Rightarrow> Some (Inl (FailedToParseCreatedAtFor (Update_Id u)))
           | Some updateCreatedAt \<Rightarrow>
               if createdAt < updateCreatedAt
               then update_scanGroup w platform createdAt us
               else Some (Inr u))"

fun update_previousUpdateFor :: "world \<Rightarrow> Platform \<Rightarrow> int \<Rightarrow> Update list list \<Rightarrow> error + Update option" where
  "update_previousUpdateFor w platform createdAt [] = Inr None"
| "update_previousUpdateFor w platform createdAt (g # gs) =
     (case update_scanGroup w platform createdAt g of
        Some (Inl e) \<Rightarrow> Inl e
      | Some (Inr u) \<Rightarrow> Inr (Some u)
      | None \<Rightarrow> update_previousUpdateFor w platform createdAt gs)"

definition update_fetchPreviousUpdate :: "world \<Rightarrow> update_Update \<Rightarrow> (error + Update option) \<times> event list" where
  "update_fetchPreviousUpdate w update =
     (case ParseRFC3339 w (upd_CreatedAt update) of
        None \<Rightarrow> (Inl FailedToParseCreatedAt, [])
      | Some createdAt \<Rightarrow>
          (case FetchUpdates w (upd_AppId update) (upd_Branch update) 10 0 of
             Inl e \<Rightarrow> Inl (FailedToFetchUpdates e)
           | Inr updates \<Rightarrow> update_previousUpdateFor w (upd_Platform update) createdAt updates,
           [CallFetchUpdates (upd_AppId update) (upd_Branch update) 10 0]))"

section \<open>Previous-event resolution, package build\<close>

fun build_scanGroup :: "world \<Rightarrow> Platform \<Rightarrow> int \<Rightarrow> Update list \<Rightarrow> (error + Update) option" where
  "build_scanGroup w platform createdAt [] = None"
| "build_scanGroup w platform createdAt (u # us) =
     (if \<not> Platform_Equal w (Update_Platform u) platform
      then build_scanGroup w platform createdAt us
      else case ParseRFC3339 w (Update_CreatedAt u) of
             None \<Rightarrow> Some (Inl (FailedToParseCreatedAtFor (Update_Id u)))
           | Some updateCreatedAt \<Rightarrow>
               if createdAt < updateCreatedAt
               then build_scanGroup w platform createdAt us
               else Some (Inr u))"

fun build_previousUpdateFor :: "world \<Rightarrow> Platform \<Rightarrow> int \<Rightarrow> Update list list \<Rightarrow> error + Update option" where
  "build_previousUpdateFor w platform createdAt [] = Inr None"
| "build_previousUpdateFor w platform createdAt (g # gs) =
     (case build_scanGroup w platform createdAt g of
        Some (Inl e) \<Rightarrow> Inl e
      | Some (Inr u) \<Rightarrow> Inr (Some u)
      | None \<Rightarrow> build_previousUpdateFor w platform createdAt gs)"

text \<open>
  \<open>updateBranchFor\<close>: three nested \<open>range\<close> loops; each returns \<open>Some name\<close> when the
  body returns and \<open>None\<close> when the loop ends. The empty string is the function's
  answer when nothing is found or the channel is \<open>nil\<close>.
\<close>

fun branchInGroup :: "world \<Rightarrow> Platform \<Rightarrow> Update list \<Rightarrow> string option" where
  "branchInGroup w platform [] = None"
| "branchInGroup w platform (u # us) =
     (if Platform_Equal w (Update_Platform u) platform
      then Some (Branch_Name (Update_Branch u))
      else branchInGroup w platform us)"

fun branchInGroups :: "world \<Rightarrow> Platform \<Rightarrow> Update list list \<Rightarrow> string option" where
  "branchInGroups w platform [] = None"
| "branchInGroups w platform (g # gs) =
     (case branchInGroup w platform g of
        Some n \<Rightarrow> Some n
      | None \<Rightarrow> branchInGroups w platform gs)"

fun branchInBranches :: "world \<Rightarrow> Platform \<Rightarrow> UpdateBranch list \<Rightarrow> string option" where
  "branchInBranches w platform [] = None"
| "branchInBranches w platform (b # bs) =
     (case branchInGroups w platform (UpdateGroups b) of
        Some n \<Rightarrow> Some n
      | None \<Rightarrow> branchInBranches w platform bs)"

definition updateBranchFor :: "world \<Rightarrow> Platform \<Rightarrow> UpdateChannel option \<Rightarrow> string" where
  "updateBranchFor w platform channel =
     (case channel of
        None \<Rightarrow> ''''
      | Some c \<Rightarrow>
          (case branchInBranches w platform (UpdateBranches c) of
             Some n \<Rightarrow> n
           | None \<Rightarrow> ''''))"

definition build_fetchPreviousUpdate :: "world \<Rightarrow> build_WebhookPayload \<Rightarrow> (error + Update option) \<times> event list" where
  "build_fetchPreviousUpdate w p =
     (case ParseRFC3339 w (bld_CreatedAt p) of
        None \<Rightarrow> (Inl FailedToParseCreatedAt, [])
      | Some createdAt \<Rightarrow>
          (let call1 = CallFetchUpdateChannel (bld_AppId p) (Channel (Version (bld_Metadata p)))
           in case FetchUpdateChannel w (bld_AppId p) (Channel (Version (bld_Metadata p))) of
                Inl e \<Rightarrow> (Inl (FailedToFetchUpdateChannel e), [call1])
              | Inr channel \<Rightarrow>
                  (let updateBranch = updateBranchFor w (bld_Platform p) (Some channel)
                   in if updateBranch = ''''
                      then (Inl (FailedToFindUpdateBranch (bld_Platform p)), [call1])
                      else (case FetchUpdates w (bld_AppId p) updateBranch 10 0 of
                              Inl e \<Rightarrow> Inl (FailedToFetchUpdates e)
                            | Inr updates \<Rightarrow>
                                build_previousUpdateFor w (bld_Platform p) createdAt updates,
                            [call1, CallFetchUpdates (bld_AppId p) updateBranch 10 0]))))"

text \<open>
  The loop of \<open>fetchPreviousBuild\<close>, by index as in the source. Go's \<open>len(builds)-1\<close> is
  a signed integer, so the comparison is made on \<open>int\<close>.
\<close>

function scanBuilds :: "string \<Rightarrow> Build list \<Rightarrow> nat \<Rightarrow> Build option" where
  "scanBuilds ident builds i =
     (if i < length builds
      then (if Build_Id (builds ! i) = ident \<and> int i < int (length builds) - 1
            then Some (builds ! (i + 1))
            else scanBuilds ident builds (i + 1))
      else None)"
  by pat_completeness auto
termination
  by (relation "measure (\<lambda>(ident, builds, i). length builds - i)") auto

declare scanBuilds.simps [simp del]

definition fetchPreviousBuild :: "world \<Rightarrow> build_WebhookPayload \<Rightarrow> (error + Build option) \<times> event list" where
  "fetchPreviousBuild w p =
     (case FetchBuilds w (bld_AppId p) (Channel (Version (bld_Metadata p))) (bld_Platform p) 10 0 of
        Inl e \<Rightarrow> Inl (FailedToFetchBuildList e)
      | Inr builds \<Rightarrow> Inr (scanBuilds (bld_Id p) builds 0),
      [CallFetchBuilds (bld_AppId p) (Channel (Version (bld_Metadata p))) (bld_Platform p) 10 0])"

section \<open>Panics\<close>

text \<open>
  A Go call either returns or panics. \<open>slice s lo hi\<close> is the string slice
  \<open>s[lo:hi]\<close>, which panics unless \<open>lo \<le> hi \<le> len(s)\<close>; the bounds count bytes.
\<close>

datatype 'a go = Panics | Returns 'a

definition slice :: "string \<Rightarrow> nat \<Rightarrow> nat \<Rightarrow> string go" where
  "slice s lo hi =
     (if lo \<le> hi \<and> hi \<le> length s then Returns (take (hi - lo) (drop lo s)) else Panics)"

definition FormatBuildVersion :: "BuildVersionMetadata \<Rightarrow> string go" where
  "FormatBuildVersion build =
     (case slice (GitCommitHash build) 0 7 of
        Panics \<Rightarrow> Panics
      | Returns short \<Rightarrow>
          Returns (AppVersion build @ '' ('' @ AppBuildVersion build
            @ '') [<https://github.com/NWACus/avy/commit/'' @ GitCommitHash build @ ''|'' @ short
            @ ''>] @<https://expo.dev/accounts/nwac/projects/avalanche-forecast/channels/''
            @ Channel build @ ''|'' @ Channel build @ ''>''))"

section \<open>Integers, float64 and durations\<close>

text \<open>Go's \<open>/\<close> and \<open>%\<close> on integers truncate toward zero.\<close>

definition tdiv :: "int \<Rightarrow> int \<Rightarrow> int" where
  "tdiv a b = sgn a * sgn b * (\<bar>a\<bar> div \<bar>b\<bar>)"

definition tmod :: "int \<Rightarrow> int \<Rightarrow> int" where
  "tmod a b = a - b * tdiv a b"

text \<open>
  A finite \<open>float64\<close> is a pair \<open>(m, e)\<close> standing for \<open>m * 2 ^ e\<close>. Every operation
  computes the exact rational result and rounds it to 53 significant bits, to nearest
  and to even on a tie, as IEEE 754 binary64 arithmetic does. \<open>f64_round n d\<close> rounds
  the rational \<open>n / d\<close> for \<open>d > 0\<close>. The exponent range is not modelled: the values
  of this program lie between \<open>2 ^ - 42\<close> and \<open>2 ^ 34\<close> in magnitude, or are zero. The
  divisors of this program are nonzero constants, and a quotient by zero is outside the
  model.
\<close>

type_synonym float64 = "int \<times> int"

fun bitLen :: "nat \<Rightarrow> nat" where
  "bitLen n = (if n = 0 then 0 else Suc (bitLen (n div 2)))"

declare bitLen.simps [simp del]

definition f64_num :: "float64 \<Rightarrow> int" where
  "f64_num x = fst x * 2 ^ nat (snd x)"

definition f64_den :: "float64 \<Rightarrow> int" where
  "f64_den x = 2 ^ nat (- snd x)"

definition f64_round :: "int \<Rightarrow> int \<Rightarrow> float64" where
  "f64_round n d =
     (if n = 0 then (0, 0)
      else
        let a = \<bar>n\<bar>;
            k = int (bitLen (nat a)) - int (bitLen (nat d));
            fl = (if d * 2 ^ nat k \<le> a * 2 ^ nat (- k) then k else k - 1);
            s = 52 - fl;
            num = a * 2 ^ nat s;
            den = d * 2 ^ nat (- s);
            q = num div den;
            r = num mod den;
            q' = (if den < 2 * r \<or> (2 * r = den \<and> odd q) then q + 1 else q)
        in (sgn n * q', - s))"

definition f64_of_int :: "int \<Rightarrow> float64" where
  "f64_of_int i = f64_round i 1"

definition f64_add :: "float64 \<Rightarrow> float64 \<Rightarrow> float64" where
  "f64_add x y =
     f64_round (f64_num x * f64_den y + f64_num y * f64_den x) (f64_den x * f64_den y)"

definition f64_div :: "float64 \<Rightarrow> float64 \<Rightarrow> float64" where
  "f64_div x y =
     (if f64_num y = 0 then (0, 0)
      else f64_round (sgn (f64_num y) * f64_num x * f64_den y) (f64_den x * \<bar>f64_num y\<bar>))"

text \<open>The conversion \<open>int(x)\<close> of a \<open>float64\<close> discards the fraction.\<close>

definition f64_to_int :: "float64 \<Rightarrow> int" where
  "f64_to_int x = tdiv (f64_num x) (f64_den x)"

text \<open>
  A \<open>time.Duration\<close> is a signed 64-bit count of nanoseconds. \<open>Seconds\<close>, \<open>Minutes\<close>
  and \<open>Hours\<close> are the methods of package time, which add the whole units and the
  remaining nanoseconds as \<open>float64\<close>. \<open>Since\<close> is \<open>time.Since\<close>: the clock minus the
  instant, saturated to the range of a \<open>Duration\<close>.
\<close>

definition Second :: int where "Second = 1000000000"
definition Minute :: int where "Minute = 60 * Second"
definition Hour :: int where "Hour = 60 * Minute"

definition minDuration :: int where "minDuration = - 9223372036854775808"
definition maxDuration :: int where "maxDuration = 9223372036854775807"

definition Seconds :: "int \<Rightarrow> float64" where
  "Seconds d =
     f64_add (f64_of_int (tdiv d Second))
       (f64_div (f64_of_int (tmod d Second)) (f64_of_int 1000000000))"

definition Minutes :: "int \<Rightarrow> float64" where
  "Minutes d =
     f64_add (f64_of_int (tdiv d Minute))
       (f64_div (f64_of_int (tmod d Minute)) (f64_of_int (60 * 1000000000)))"

definition Hours :: "int \<Rightarrow> float64" where
  "Hours d =
     f64_add (f64_of_int (tdiv d Hour))
       (f64_div (f64_of_int (tmod d Hour)) (f64_of_int (60 * 60 * 1000000000)))"

definition Since :: "world \<Rightarrow> int \<Rightarrow> int" where
  "Since w t =
     (let d = Now w - t
      in if d < minDuration then minDuration else if maxDuration < d then maxDuration else d)"

text \<open>The verb \<open>%d\<close> of package fmt: decimal digits, with a minus sign when negative.\<close>

definition digitChar :: "nat \<Rightarrow> char" where
  "digitChar n = ''0123456789'' ! n"

fun digitsOf :: "nat \<Rightarrow> string" where
  "digitsOf n = (if n < 10 then [digitChar n] else digitsOf (n div 10) @ [digitChar (n mod 10)])"

declare digitsOf.simps [simp del]

definition itoa :: "int \<Rightarrow> string" where
  "itoa i = (if i < 0 then CHR ''-'' # digitsOf (nat (- i)) else digitsOf (nat i))"

section \<open>Elapsed time, packages update and build\<close>

definition update_formatDuration :: "int \<Rightarrow> string" where
  "update_formatDuration d =
     (if d < Minute then itoa (f64_to_int (Seconds d)) @ '' seconds''
      else if d < Hour then itoa (f64_to_int (Minutes d)) @ '' minutes''
      else if d < 24 * Hour then itoa (f64_to_int (Hours d)) @ '' hours''
      else if d < 30 * 24 * Hour
        then itoa (f64_to_int (f64_div (Hours d) (f64_of_int 24))) @ '' days''
      else if d < 365 * 24 * Hour
        then itoa (f64_to_int (f64_div (Hours d) (f64_of_int (30 * 24)))) @ '' months''
      else itoa (f64_to_int (f64_div (Hours d) (f64_of_int (365 * 24)))) @ '' years'')"

definition build_formatDuration :: "int \<Rightarrow> string" where
  "build_formatDuration d =
     (if d < Minute then itoa (f64_to_int (Seconds d)) @ '' seconds''
      else if d < Hour then itoa (f64_to_int (Minutes d)) @ '' minutes''
      else if d < 24 * Hour then itoa (f64_to_int (Hours d)) @ '' hours''
      else if d < 30 * 24 * Hour
        then itoa (f64_to_int (f64_div (Hours d) (f64_of_int 24))) @ '' days''
      else if d < 365 * 24 * Hour
        then itoa (f64_to_int (f64_div (Hours d) (f64_of_int (30 * 24)))) @ '' months''
      else itoa (f64_to_int (f64_div (Hours d) (f64_of_int (365 * 24)))) @ '' years'')"

section \<open>Message blocks\<close>

text \<open>
  \<open>blocksFor\<close> of package update. The arguments of \<open>fmt.Sprintf\<close> are evaluated left
  to right, so the slice of the previous commit hash is taken, and may panic, before
  the elapsed time is formatted.
\<close>

definition update_blocksFor :: "world \<Rightarrow> Config \<Rightarrow> update_Update \<Rightarrow> Update option \<Rightarrow> (error + Block list) go" where
  "update_blocksFor w cfg update previous =
     (let header = HeaderBlock ('':arrows_counterclockwise:'' @ PlatformEmoji (upd_Platform update)
            @ StatusEmoji StatusFinished @ ''| '' @ PlatformDisplay (upd_Platform update)
            @ '' OTA update '' @ StatusDisplay StatusFinished @ ''.'');
          details = SectionBlock
            (''See update details <https://expo.dev/accounts/nwac/projects/avalanche-forecast/updates/''
             @ upd_Id update @ ''|here>.'')
      in case previous of
           None \<Rightarrow> Returns (Inr [header, details])
         | Some prev \<Rightarrow>
             (case ParseRFC3339 w (Update_CreatedAt prev) of
                None \<Rightarrow> Returns (Inl (FailedToParseCreatedAtFor (upd_Id update)))
              | Some createdAt \<Rightarrow>
                  (case slice (Update_GitCommitHash prev) 0 7 of
                     Panics \<Rightarrow> Panics
                   | Returns short \<Rightarrow>
                       Returns (Inr [header,
                         SectionBlock
                           (''The <https://expo.dev/accounts/nwac/projects/avalanche-forecast/updates/''
                            @ upd_Id update
                            @ ''|previous update>, for commit <https://github.com/NWACus/avy/commit/''
                            @ Update_GitCommitHash prev @ ''|'' @ short @ ''>, was published ''
                            @ update_formatDuration (Since w createdAt)
                            @ '' ago. See the changelog on <https://github.com/NWACus/avy/compare/''
                            @ Update_GitCommitHash prev @ ''...'' @ upd_GitCommitHash update
                            @ ''|GitHub>''),
                         details]))))"

text \<open>
  \<open>blocksFor\<close> of package build, statement by statement: the header, the section on
  the previous build (\<open>if build != nil\<close>), the section on the previous update
  (\<open>if update != nil\<close>) and the closing section. Each optional section yields the
  blocks it appends, the error it returns, or a panic.
\<close>

definition build_header :: "build_WebhookPayload \<Rightarrow> Block go" where
  "build_header p =
     (case FormatBuildVersion (Version (bld_Metadata p)) of
        Panics \<Rightarrow> Panics
      | Returns v \<Rightarrow>
          Returns (HeaderBlock ('':hammer_and_wrench:'' @ PlatformEmoji (bld_Platform p)
            @ StatusEmoji (bld_Status p) @ ''| '' @ PlatformDisplay (bld_Platform p)
            @ '' build of '' @ AppName (bld_Metadata p) @ '' '' @ v @ '' ''
            @ StatusDisplay (bld_Status p) @ ''.'')))"

definition build_previousBuildSection :: "world \<Rightarrow> build_WebhookPayload \<Rightarrow> Build option \<Rightarrow> (error + Block list) go" where
  "build_previousBuildSection w p build =
     (case build of
        None \<Rightarrow> Returns (Inr [])
      | Some b \<Rightarrow>
          (case ParseRFC3339 w (Build_CreatedAt b) of
             None \<Rightarrow> Returns (Inl (FailedToParseCreatedAtFor (Build_Id b)))
           | Some createdAt \<Rightarrow>
               (case FormatBuildVersion (Build_Metadata b) of
                  Panics \<Rightarrow> Panics
                | Returns v \<Rightarrow>
                    Returns (Inr [SectionBlock
                      (''The <https://expo.dev/accounts/nwac/projects/avalanche-forecast/builds/''
                       @ Build_Id b @ ''|previous build>, '' @ v @ '', was published ''
                       @ build_formatDuration (Since w createdAt)
                       @ '' ago. See the changelog on <https://github.com/NWACus/avy/compare/''
                       @ GitCommitHash (Build_Metadata b) @ ''...''
                       @ GitCommitHash (Version (bld_Metadata p)) @ ''|GitHub>'')]))))"

definition build_previousUpdateSection :: "world \<Rightarrow> build_WebhookPayload \<Rightarrow> Update option \<Rightarrow> (error + Block list) go" where
  "build_previousUpdateSection w p update =
     (case update of
        None \<Rightarrow> Returns (Inr [])
      | Some u \<Rightarrow>
          (case ParseRFC3339 w (Update_CreatedAt u) of
             None \<Rightarrow> Returns (Inl (FailedToParseCreatedAtFor (Update_Id u)))
           | Some createdAt \<Rightarrow>
               (case slice (Update_GitCommitHash u) 0 7 of
                  Panics \<Rightarrow> Panics
                | Returns short \<Rightarrow>
                    Returns (Inr [SectionBlock
                      (''The <https://expo.dev/accounts/nwac/projects/avalanche-forecast/updates/''
                       @ Update_Id u
                       @ ''|previous update>, for commit <https://github.com/NWACus/avy/commit/''
                       @ Update_GitCommitHash u @ ''|'' @ short @ ''>, was published ''
                       @ build_formatDuration (Since w createdAt)
                       @ '' ago. See the changelog on <https://github.com/NWACus/avy/compare/''
                       @ Update_GitCommitHash u @ ''...''
                       @ GitCommitHash (Version (bld_Metadata p)) @ ''|GitHub>'')]))))"

definition build_details :: "build_WebhookPayload \<Rightarrow> Block" where
  "build_details p =
     SectionBlock
       ((if Failed (bld_Error p) then ''Error '' @ Error_string (bld_Error p) @ [CHR 0x0A] else '''')
        @ ''See build details <'' @ bld_Details p @ ''|here>.'')"

definition build_blocksFor :: "world \<Rightarrow> Config \<Rightarrow> build_WebhookPayload \<Rightarrow> Build option \<Rightarrow> Update option \<Rightarrow> (error + Block list) go" where
  "build_blocksFor w cfg p build update =
     (case build_header p of
        Panics \<Rightarrow> Panics
      | Returns header \<Rightarrow>
          (case build_previousBuildSection w p build of
             Panics \<Rightarrow> Panics
           | Returns (Inl e) \<Rightarrow> Returns (Inl e)
           | Returns (Inr bs) \<Rightarrow>
               (case build_previousUpdateSection w p update of
                  Panics \<Rightarrow> Panics
                | Returns (Inl e) \<Rightarrow> Returns (Inl e)
                | Returns (Inr us) \<Rightarrow> Returns (Inr ([header] @ bs @ us @ [build_details p])))))"

definition submit_blocksFor :: "world \<Rightarrow> Config \<Rightarrow> submit_WebhookPayload \<Rightarrow> Submission option \<Rightarrow> (error + Block list) go" where
  "submit_blocksFor w cfg p submission =
     (let details = SectionBlock
            ((if Failed (Info_Error (sub_Info p))
              then ''Error '' @ Error_string (Info_Error (sub_Info p)) @ [CHR 0x0A] else '''')
             @ ''See details <'' @ sub_Details p @ ''|here>.'')
      in case submission of
           None \<Rightarrow>
             Returns (Inr [HeaderBlock
               (FormatTitle '':arrow_up:'' ''submission'' (sub_Platform p) (sub_Status p)), details])
         | Some s \<Rightarrow>
             (case FormatBuildVersion (Build_Metadata (SubmittedBuild s)) of
                Panics \<Rightarrow> Panics
              | Returns v \<Rightarrow>
                  Returns (Inr [HeaderBlock ('':arrow_up:'' @ PlatformEmoji (sub_Platform p)
                    @ StatusEmoji (sub_Status p) @ ''| '' @ PlatformDisplay (sub_Platform p)
                    @ '' submission of '' @ App_Name (Submission_App s) @ '' '' @ v @ '' ''
                    @ StatusDisplay (sub_Status p) @ ''.''), details])))"

section \<open>Enrichment: the three handlePayload functions\<close>

text \<open>
  A run of a function ends by returning or by a panic that unwinds it. The events of
  a run are those the call performs itself, in order, before it ends: the handlers
  start no goroutine.
\<close>

datatype completion = Returned | Panicked

text \<open>
  An error of a fetch is logged and the pointer it returned is \<open>nil\<close>, so the message
  is built without the previous event.
\<close>

definition orNil :: "error + 'a option \<Rightarrow> 'a option" where
  "orNil r = (case r of Inl e \<Rightarrow> None | Inr v \<Rightarrow> v)"

fun update_handlePayload :: "world \<Rightarrow> Config \<Rightarrow> update_Update list \<Rightarrow> event list \<times> completion" where
  "update_handlePayload w cfg [] = ([], Returned)"
| "update_handlePayload w cfg (update # updates) =
     (if LookupEnv w ''ALLOW_PREVIEW'' = None \<and> prefix ''xxx'' (upd_Branch update)
      then update_handlePayload w cfg updates
      else
        let (previousUpdate, fetched) = update_fetchPreviousUpdate w update
        in case update_blocksFor w cfg update (orNil previousUpdate) of
             Panics \<Rightarrow> (fetched, Panicked)
           | Returns (Inl e) \<Rightarrow> (fetched, Returned)
           | Returns (Inr blocks) \<Rightarrow>
               (let (later, c) = update_handlePayload w cfg updates
                in (fetched @ [CallPostMessage (SlackChannel cfg) blocks] @ later, c)))"

definition build_handlePayload :: "world \<Rightarrow> Config \<Rightarrow> build_WebhookPayload \<Rightarrow> event list \<times> completion" where
  "build_handlePayload w cfg p =
     (let (previousBuild, fetched1) = fetchPreviousBuild w p;
          (previousUpdate, fetched2) = build_fetchPreviousUpdate w p
      in case build_blocksFor w cfg p (orNil previousBuild) (orNil previousUpdate) of
           Panics \<Rightarrow> (fetched1 @ fetched2, Panicked)
         | Returns (Inl e) \<Rightarrow> (fetched1 @ fetched2, Returned)
         | Returns (Inr blocks) \<Rightarrow>
             (fetched1 @ fetched2 @ [CallPostMessage (SlackChannel cfg) blocks], Returned))"

text \<open>
  The client's \<open>FetchSubmission\<close> formats the build version of the submission it
  received for a log line, so it panics on a short commit hash.
\<close>

definition Client_FetchSubmission :: "world \<Rightarrow> string \<Rightarrow> (error + Submission) go \<times> event list" where
  "Client_FetchSubmission w ident =
     (case FetchSubmission w ident of
        Inl e \<Rightarrow> Returns (Inl e)
      | Inr s \<Rightarrow>
          (case FormatBuildVersion (Build_Metadata (SubmittedBuild s)) of
             Panics \<Rightarrow> Panics
           | Returns v \<Rightarrow> Returns (Inr s)),
      [CallFetchSubmission ident])"

definition submit_handlePayload :: "world \<Rightarrow> Config \<Rightarrow> submit_WebhookPayload \<Rightarrow> event list \<times> completion" where
  "submit_handlePayload w cfg p =
     (let (fetchedSubmission, fetched) = Client_FetchSubmission w (sub_Id p)
      in case fetchedSubmission of
           Panics \<Rightarrow> (fetched, Panicked)
         | Returns r \<Rightarrow>
             (case submit_blocksFor w cfg p (case r of Inl e \<Rightarrow> None | Inr s \<Rightarrow> Some s) of
                Panics \<Rightarrow> (fetched, Panicked)
              | Returns (Inl e) \<Rightarrow> (fetched, Returned)
              | Returns (Inr blocks) \<Rightarrow>
                  (fetched @ [CallPostMessage (SlackChannel cfg) blocks], Returned)))"

section \<open>The webhook endpoints: the three Handle functions\<close>

text \<open>
  A request as the handlers read it: the method, the result of \<open>io.ReadAll\<close> on the
  body, and \<open>Header.Get\<close>. \<open>hex_EncodeToString\<close> is \<open>hex.EncodeToString\<close>, two lower-case
  digits for each byte.
\<close>

record Request =
  Method :: string
  Body :: "error + string"
  Header_Get :: "string \<Rightarrow> string"

definition hexDigit :: "nat \<Rightarrow> char" where
  "hexDigit n = ''0123456789abcdef'' ! n"

definition hex_EncodeToString :: "nat list \<Rightarrow> string" where
  "hex_EncodeToString bs = concat (map (\<lambda>b. [hexDigit (b div 16 mod 16), hexDigit (b mod 16)]) bs)"

definition expectedSignature :: "world \<Rightarrow> Config \<Rightarrow> string \<Rightarrow> string" where
  "expectedSignature w cfg body =
     ''sha1='' @ hex_EncodeToString (HmacSha1 w (ExpoHMACSecret cfg) body)"

definition StatusOK :: nat where "StatusOK = 200"
definition StatusBadRequest :: nat where "StatusBadRequest = 400"
definition StatusUnauthorized :: nat where "StatusUnauthorized = 401"
definition StatusMethodNotAllowed :: nat where "StatusMethodNotAllowed = 405"
definition StatusInternalServerError :: nat where "StatusInternalServerError = 500"

definition update_Handle :: "world \<Rightarrow> Config \<Rightarrow> Request \<Rightarrow> event list \<times> completion" where
  "update_Handle w cfg r =
     (if Method r \<noteq> ''POST'' then ([WriteHeader StatusMethodNotAllowed], Returned)
      else case Body r of
        Inl e \<Rightarrow> ([WriteHeader StatusInternalServerError], Returned)
      | Inr body \<Rightarrow>
          if expectedSignature w cfg body \<noteq> Header_Get r ''signature''
          then ([WriteHeader StatusUnauthorized], Returned)
          else case UnmarshalUpdates w body of
            None \<Rightarrow> ([WriteHeader StatusBadRequest], Returned)
          | Some payload \<Rightarrow>
              (let (enrichment, c) = update_handlePayload w cfg payload
               in (WriteHeader StatusOK # enrichment, c)))"

definition build_Handle :: "world \<Rightarrow> Config \<Rightarrow> Request \<Rightarrow> event list \<times> completion" where
  "build_Handle w cfg r =
     (if Method r \<noteq> ''POST'' then ([WriteHeader StatusMethodNotAllowed], Returned)
      else case Body r of
        Inl e \<Rightarrow> ([WriteHeader StatusInternalServerError], Returned)
      | Inr body \<Rightarrow>
          if expectedSignature w cfg body \<noteq> Header_Get r ''expo-signature''
          then ([WriteHeader StatusUnauthorized], Returned)
          else case UnmarshalBuild w body of
            None \<Rightarrow> ([WriteHeader StatusBadRequest], Returned)
          | Some payload \<Rightarrow>
              (let (enrichment, c) = build_handlePayload w cfg payload
               in (WriteHeader StatusOK # enrichment, c)))"

definition submit_Handle :: "world \<Rightarrow> Config \<Rightarrow> Request \<Rightarrow> event list \<times> completion" where
  "submit_Handle w cfg r =
     (if Method r \<noteq> ''POST'' then ([WriteHeader StatusMethodNotAllowed], Returned)
      else case Body r of
        Inl e \<Rightarrow> ([WriteHeader StatusInternalServerError], Returned)
      | Inr body \<Rightarrow>
          if expectedSignature w cfg body \<noteq> Header_Get r ''expo-signature''
          then ([WriteHeader StatusUnauthorized], Returned)
          else case UnmarshalSubmit w body of
            None \<Rightarrow> ([WriteHeader StatusBadRequest], Returned)
          | Some payload \<Rightarrow>
              (let (enrichment, c) = submit_handlePayload w cfg payload
               in (WriteHeader StatusOK # enrichment, c)))"

section \<open>Notions used to state the results\<close>

text \<open>
  A member is passed over by the scan when its platform does not match, or when its
  timestamp parses and lies strictly after the reference time.
\<close>

definition skipped :: "world \<Rightarrow> Platform \<Rightarrow> int \<Rightarrow> Update \<Rightarrow> bool" where
  "skipped w p t u =
     (\<not> Platform_Equal w (Update_Platform u) p
      \<or> (case ParseRFC3339 w (Update_CreatedAt u) of None \<Rightarrow> False | Some tu \<Rightarrow> t < tu))"

definition verdict :: "world \<Rightarrow> Update \<Rightarrow> error + Update" where
  "verdict w u =
     (case ParseRFC3339 w (Update_CreatedAt u) of
        None \<Rightarrow> Inl (FailedToParseCreatedAtFor (Update_Id u))
      | Some tu \<Rightarrow> Inr u)"

definition matching :: "world \<Rightarrow> Platform \<Rightarrow> Update \<Rightarrow> bool" where
  "matching w p u = Platform_Equal w (Update_Platform u) p"

definition branchOf :: "Update \<Rightarrow> string" where
  "branchOf u = Branch_Name (Update_Branch u)"

text \<open>All updates of a channel, branch by branch, group by group, member by member.\<close>

definition channelUpdates :: "UpdateChannel \<Rightarrow> Update list" where
  "channelUpdates c = concat (concat (map UpdateGroups (UpdateBranches c)))"

section \<open>Example inputs\<close>

text \<open>
  A sample environment for the examples: case folding of ASCII letters, three
  timestamps with their instants in nanoseconds since the epoch, and an upstream that
  answers nothing until a field is set.
\<close>

definition asciiLower :: "char \<Rightarrow> char" where
  "asciiLower c =
     (case map_of (zip ''ABCDEFGHIJKLMNOPQRSTUVWXYZ'' ''abcdefghijklmnopqrstuvwxyz'') c of
        Some l \<Rightarrow> l
      | None \<Rightarrow> c)"

definition foldASCII :: "string \<Rightarrow> string \<Rightarrow> bool" where
  "foldASCII a b = (map asciiLower a = map asciiLower b)"

definition sampleParse :: "string \<Rightarrow> int option" where
  "sampleParse s =
     (if s = ''2024-01-01T00:00:00Z'' then Some 1704067200000000000
      else if s = ''2024-01-02T00:00:00Z'' then Some 1704153600000000000
      else if s = ''2024-01-03T00:00:00Z'' then Some 1704240000000000000
      else None)"

definition sampleWorld :: world where
  "sampleWorld =
     \<lparr> EqualFold = foldASCII,
       ParseRFC3339 = sampleParse,
       Now = 1704326400000000000,
       LookupEnv = (\<lambda>name. None),
       HmacSha1 = (\<lambda>key msg. []),
       UnmarshalUpdates = (\<lambda>body. None),
       UnmarshalBuild = (\<lambda>body. None),
       UnmarshalSubmit = (\<lambda>body. None),
       FetchBuilds = (\<lambda>app channel platform limit offset. Inl (Upstream ''unavailable'')),
       FetchSubmission = (\<lambda>ident. Inl (Upstream ''unavailable'')),
       FetchUpdateChannel = (\<lambda>app channel. Inl (Upstream ''unavailable'')),
       FetchUpdates = (\<lambda>app branch limit offset. Inl (Upstream ''unavailable'')) \<rparr>"

definition sampleUpdate :: "string \<Rightarrow> Platform \<Rightarrow> string \<Rightarrow> string \<Rightarrow> Update" where
  "sampleUpdate ident platform branch created =
     \<lparr> Update_Id = ident, Update_Group = ''g'', Update_Platform = platform,
       Update_GitCommitHash = ''0123456789abcdef'',
       Update_Branch = \<lparr> Branch_Id = ''b'', Branch_Name = branch \<rparr>,
       Update_CreatedAt = created \<rparr>"

definition sampleBuild :: "string \<Rightarrow> Build" where
  "sampleBuild ident =
     \<lparr> Build_Id = ident, Build_Status = ''finished'', Build_Platform = ''ios'',
       Build_Error = \<lparr> Message = '''', ErrorCode = '''' \<rparr>,
       Build_CreatedAt = ''2024-01-01T00:00:00Z'',
       Build_Metadata = \<lparr> Channel = ''production'', AppVersion = ''1.0'',
         AppBuildVersion = ''7'', GitCommitHash = ''0123456789abcdef'' \<rparr> \<rparr>"

definition samplePayload :: "string \<Rightarrow> string \<Rightarrow> build_WebhookPayload" where
  "samplePayload ident created =
     \<lparr> bld_Id = ident, bld_AppId = ''app'', bld_Details = ''https://expo.dev/b'',
       bld_Platform = ''ios'', bld_Status = ''finished'',
       bld_Metadata = \<lparr> AppName = ''avy'',
         Version = \<lparr> Channel = ''production'', AppVersion = ''1.0'',
           AppBuildVersion = ''8'', GitCommitHash = ''fedcba9876543210'' \<rparr> \<rparr>,
       bld_Error = \<lparr> Message = '''', ErrorCode = '''' \<rparr>,
       bld_CreatedAt = created \<rparr>"

definition sampleGroups :: "Update list list" where
  "sampleGroups =
     [[sampleUpdate ''u3'' ''ios'' ''main'' ''2024-01-03T00:00:00Z''],
      [sampleUpdate ''u1'' ''ios'' ''main'' ''2024-01-01T00:00:00Z'']]"

definition sampleChannel :: UpdateChannel where
  "sampleChannel =
     \<lparr> UpdateChannel_Id = ''c'', UpdateChannel_Name = ''production'',
       UpdateBranches =
         [\<lparr> UpdateBranch_Id = ''b0'', UpdateBranch_Name = ''android-only'',
            UpdateGroups = [[sampleUpdate ''u0'' ''android'' ''android-only'' ''2024-01-03T00:00:00Z'']] \<rparr>,
          \<lparr> UpdateBranch_Id = ''b'', UpdateBranch_Name = ''main'',
            UpdateGroups = [[sampleUpdate ''u3'' ''ios'' ''main'' ''2024-01-03T00:00:00Z'']] \<rparr>] \<rparr>"

definition samplePage :: "Build list" where
  "samplePage = [sampleBuild ''B3'', sampleBuild ''B2'', sampleBuild ''B1'']"

text \<open>The sample environment with an upstream that answers every query.\<close>

definition sampleUpstream :: world where
  "sampleUpstream =
     sampleWorld
       \<lparr> FetchBuilds := (\<lambda>app channel platform limit offset. Inr samplePage),
         FetchUpdateChannel := (\<lambda>app channel. Inr sampleChannel),
         FetchUpdates := (\<lambda>app branch limit offset. Inr sampleGroups) \<rparr>"

text \<open>A channel whose first iOS update carries an empty branch name.\<close>

definition sampleChannelNoName :: UpdateChannel where
  "sampleChannelNoName =
     \<lparr> UpdateChannel_Id = ''c'', UpdateChannel_Name = ''production'',
       UpdateBranches =
         [\<lparr> UpdateBranch_Id = ''b0'', UpdateBranch_Name = ''main'',
            UpdateGroups = [[sampleUpdate ''u4'' ''ios'' '''' ''2024-01-03T00:00:00Z''],
                            [sampleUpdate ''u3'' ''ios'' ''main'' ''2024-01-03T00:00:00Z'']] \<rparr>] \<rparr>"

text \<open>
  Sample requests. The sample server signs every body with the digest bytes
  \<open>de ad be ef\<close> and parses two bodies on the update route, one on the build route and
  one on the submit route; its upstream is unavailable, so that every message is built
  without a previous event.
\<close>

definition sampleConfig :: Config where
  "sampleConfig = \<lparr> ExpoHMACSecret = ''s'', SlackChannel = ''#builds'' \<rparr>"

definition sampleUpdatePayload :: "string \<Rightarrow> string \<Rightarrow> update_Update" where
  "sampleUpdatePayload ident branch =
     \<lparr> upd_Id = ident, upd_AppId = ''app'', upd_Group = ''g'',
       upd_CreatedAt = ''2024-01-02T00:00:00Z'', upd_Branch = branch, upd_Platform = ''ios'',
       upd_GitCommitHash = ''fedcba9876543210'' \<rparr>"

definition sampleSubmitPayload :: submit_WebhookPayload where
  "sampleSubmitPayload =
     \<lparr> sub_Id = ''s1'', sub_Details = ''https://expo.dev/s'', sub_Platform = ''ios'',
       sub_Status = ''finished'',
       sub_Info = \<lparr> Info_Error = \<lparr> Message = '''', ErrorCode = '''' \<rparr> \<rparr> \<rparr>"

definition sampleServer :: world where
  "sampleServer =
     sampleWorld
       \<lparr> HmacSha1 := (\<lambda>key msg. [222, 173, 190, 239]),
         UnmarshalUpdates := (\<lambda>body.
           if body = ''[]'' then Some []
           else if body = ''[u9]'' then Some [sampleUpdatePayload ''u9'' ''main'']
           else None),
         UnmarshalBuild := (\<lambda>body.
           if body = ''{B2}'' then Some (samplePayload ''B2'' ''2024-01-02T00:00:00Z'') else None),
         UnmarshalSubmit := (\<lambda>body.
           if body = ''{s1}'' then Some sampleSubmitPayload else None) \<rparr>"

definition sampleRequest :: "string \<Rightarrow> error + string \<Rightarrow> string \<Rightarrow> Request" where
  "sampleRequest method body signature =
     \<lparr> Method = method, Body = body,
       Header_Get = (\<lambda>name.
         if name = ''signature'' \<or> name = ''expo-signature'' then signature else '''') \<rparr>"

section \<open>Auxiliary lemmas\<close>

lemmas display_consts =
  PlatformAndroid_def PlatformIOS_def StatusFinished_def StatusCancelled_def StatusErrored_def

lemma update_scanGroup_dropWhile:
  "update_scanGroup w p t g =
     (case dropWhile (skipped w p t) g of [] \<Rightarrow> None | u # rest \<Rightarrow> Some (verdict w u))"
  by (induction g) (auto simp: skipped_def verdict_def split: option.splits)

lemma update_previousUpdateFor_dropWhile:
  "update_previousUpdateFor w p t gs =
     (case dropWhile (skipped w p t) (concat gs) of
        [] \<Rightarrow> Inr None
      | u # rest \<Rightarrow> map_sum id Some (verdict w u))"
proof (induction gs)
  case Nil
  show ?case by simp
next
  case (Cons g gs)
  note IH = Cons.IH
  show ?case
  proof (cases "\<forall>x\<in>set g. skipped w p t x")
    case True
    then have e: "dropWhile (skipped w p t) g = []" by simp
    have s: "update_scanGroup w p t g = None"
      unfolding update_scanGroup_dropWhile e by simp
    have c: "dropWhile (skipped w p t) (g @ concat gs) = dropWhile (skipped w p t) (concat gs)"
      using True by (simp add: dropWhile_append)
    show ?thesis using IH by (simp add: s c)
  next
    case False
    then obtain u rest where d: "dropWhile (skipped w p t) g = u # rest"
      by (cases "dropWhile (skipped w p t) g") auto
    have s: "update_scanGroup w p t g = Some (verdict w u)"
      unfolding update_scanGroup_dropWhile d by simp
    have c: "dropWhile (skipped w p t) (g @ concat gs) = u # rest @ concat gs"
      using False d by (auto simp: dropWhile_append)
    show ?thesis by (simp add: s c verdict_def split: option.splits)
  qed
qed

lemma dropWhile_first:
  "(dropWhile P xs = y # ys) =
      (\<exists>pre. xs = pre @ y # ys \<and> (\<forall>v\<in>set pre. P v) \<and> \<not> P y)"
proof
  assume "dropWhile P xs = y # ys"
  then have "xs = takeWhile P xs @ y # ys \<and> \<not> P y"
    by (simp add: dropWhile_eq_Cons_conv)
  moreover have "\<forall>v\<in>set (takeWhile P xs). P v"
    by (auto dest: set_takeWhileD)
  ultimately show "\<exists>pre. xs = pre @ y # ys \<and> (\<forall>v\<in>set pre. P v) \<and> \<not> P y"
    by blast
next
  assume "\<exists>pre. xs = pre @ y # ys \<and> (\<forall>v\<in>set pre. P v) \<and> \<not> P y"
  then show "dropWhile P xs = y # ys"
    by (auto simp: dropWhile_append)
qed

lemma previous_found:
  "(update_previousUpdateFor w p t gs = Inr (Some u)) =
      (\<exists>pre post. concat gs = pre @ u # post \<and> (\<forall>v\<in>set pre. skipped w p t v)
         \<and> Platform_Equal w (Update_Platform u) p
         \<and> (\<exists>tu. ParseRFC3339 w (Update_CreatedAt u) = Some tu \<and> tu \<le> t))"
  (is "?L = ?R")
proof
  assume L: ?L
  then obtain y ys where d: "dropWhile (skipped w p t) (concat gs) = y # ys"
    by (cases "dropWhile (skipped w p t) (concat gs)")
       (simp_all add: update_previousUpdateFor_dropWhile)
  with L have v: "map_sum id Some (verdict w y) = Inr (Some u)"
    by (simp add: update_previousUpdateFor_dropWhile)
  then have yu: "y = u" and ex: "\<exists>tu. ParseRFC3339 w (Update_CreatedAt u) = Some tu"
    by (auto simp: verdict_def split: option.splits)
  from d obtain pre where pre: "concat gs = pre @ y # ys" "\<forall>v\<in>set pre. skipped w p t v"
      "\<not> skipped w p t y"
    unfolding dropWhile_first by blast
  from pre(3) ex yu have "Platform_Equal w (Update_Platform u) p
      \<and> (\<exists>tu. ParseRFC3339 w (Update_CreatedAt u) = Some tu \<and> tu \<le> t)"
    by (auto simp: skipped_def)
  with pre yu show ?R by blast
next
  assume ?R
  then obtain pre post tu where h: "concat gs = pre @ u # post"
      "\<forall>v\<in>set pre. skipped w p t v" "Platform_Equal w (Update_Platform u) p"
      "ParseRFC3339 w (Update_CreatedAt u) = Some tu" "tu \<le> t"
    by blast
  then have "\<not> skipped w p t u" by (simp add: skipped_def)
  with h have "dropWhile (skipped w p t) (concat gs) = u # post"
    unfolding dropWhile_first by blast
  then show ?L using h(4)
    by (simp add: update_previousUpdateFor_dropWhile verdict_def)
qed

lemma previous_error:
  "(update_previousUpdateFor w p t gs = Inl e) =
      (\<exists>pre v post. concat gs = pre @ v # post \<and> (\<forall>v\<in>set pre. skipped w p t v)
         \<and> Platform_Equal w (Update_Platform v) p
         \<and> ParseRFC3339 w (Update_CreatedAt v) = None
         \<and> e = FailedToParseCreatedAtFor (Update_Id v))"
  (is "?L = ?R")
proof
  assume L: ?L
  then obtain y ys where d: "dropWhile (skipped w p t) (concat gs) = y # ys"
    by (cases "dropWhile (skipped w p t) (concat gs)")
       (simp_all add: update_previousUpdateFor_dropWhile)
  with L have v: "map_sum id Some (verdict w y) = Inl e"
    by (simp add: update_previousUpdateFor_dropWhile)
  then have ex: "ParseRFC3339 w (Update_CreatedAt y) = None"
      and e: "e = FailedToParseCreatedAtFor (Update_Id y)"
    by (auto simp: verdict_def split: option.splits)
  from d obtain pre where pre: "concat gs = pre @ y # ys" "\<forall>v\<in>set pre. skipped w p t v"
      "\<not> skipped w p t y"
    unfolding dropWhile_first by blast
  from pre(3) have "Platform_Equal w (Update_Platform y) p"
    by (auto simp: skipped_def)
  with pre ex e show ?R by blast
next
  assume ?R
  then obtain pre v post where h: "concat gs = pre @ v # post"
      "\<forall>v\<in>set pre. skipped w p t v" "Platform_Equal w (Update_Platform v) p"
      "ParseRFC3339 w (Update_CreatedAt v) = None" "e = FailedToParseCreatedAtFor (Update_Id v)"
    by blast
  then have "\<not> skipped w p t v" by (simp add: skipped_def)
  with h have "dropWhile (skipped w p t) (concat gs) = v # post"
    unfolding dropWhile_first by blast
  then show ?L using h(4,5)
    by (simp add: update_previousUpdateFor_dropWhile verdict_def)
qed

lemma previous_none:
  "(update_previousUpdateFor w p t gs = Inr None) = (\<forall>v\<in>set (concat gs). skipped w p t v)"
proof (cases "dropWhile (skipped w p t) (concat gs)")
  case Nil
  then have a: "\<forall>v\<in>set (concat gs). skipped w p t v"
    by (simp only: dropWhile_eq_Nil_conv)
  have "update_previousUpdateFor w p t gs = Inr None"
    unfolding update_previousUpdateFor_dropWhile Nil by simp
  with a show ?thesis by simp
next
  case (Cons y ys)
  have a: "\<not> (\<forall>v\<in>set (concat gs). skipped w p t v)"
  proof
    assume "\<forall>v\<in>set (concat gs). skipped w p t v"
    then have "dropWhile (skipped w p t) (concat gs) = []"
      by (simp only: dropWhile_eq_Nil_conv)
    with Cons show False by (simp only: list.distinct)
  qed
  have "update_previousUpdateFor w p t gs \<noteq> Inr None"
    unfolding update_previousUpdateFor_dropWhile Cons
    by (simp add: verdict_def split: option.splits)
  with a show ?thesis by blast
qed

lemma find_app: "List.find P (xs @ ys) = (case List.find P xs of None \<Rightarrow> List.find P ys | Some x \<Rightarrow> Some x)"
  by (induction xs) auto

lemma branchInGroup_find:
  "branchInGroup w p g = map_option branchOf (List.find (matching w p) g)"
  by (induction g) (simp_all add: matching_def branchOf_def)

lemma branchInGroups_find:
  "branchInGroups w p gs = map_option branchOf (List.find (matching w p) (concat gs))"
  by (induction gs) (simp_all add: branchInGroup_find find_app split: option.splits)

lemma branchInBranches_find:
  "branchInBranches w p bs =
     map_option branchOf (List.find (matching w p) (concat (concat (map UpdateGroups bs))))"
  by (induction bs) (simp_all add: branchInGroups_find find_app split: option.splits)

lemma scanBuilds_none:
  "\<forall>j. k \<le> j \<and> j < length bs \<longrightarrow> Build_Id (bs ! j) \<noteq> x \<Longrightarrow> scanBuilds x bs k = None"
proof (induction x bs k rule: scanBuilds.induct)
  case (1 ident builds i)
  show ?case
  proof (cases "i < length builds")
    case True
    with "1.prems" have ne: "Build_Id (builds ! i) \<noteq> ident" by simp
    have "scanBuilds ident builds (i + 1) = None"
      using "1.IH" [OF True] ne "1.prems" by simp
    with True ne show ?thesis by (subst scanBuilds.simps) simp
  next
    case False
    then show ?thesis by (subst scanBuilds.simps) simp
  qed
qed

lemma scanBuilds_first:
  "k \<le> i \<Longrightarrow> i < length bs \<Longrightarrow> Build_Id (bs ! i) = x
    \<Longrightarrow> \<forall>j. k \<le> j \<and> j < i \<longrightarrow> Build_Id (bs ! j) \<noteq> x
    \<Longrightarrow> scanBuilds x bs k = (if i + 1 < length bs then Some (bs ! (i + 1)) else None)"
proof (induction x bs k rule: scanBuilds.induct)
  case (1 ident builds k)
  show ?case
  proof (cases "k = i")
    case True
    show ?thesis
    proof (cases "i + 1 < length builds")
      case True
      with \<open>k = i\<close> "1.prems" show ?thesis by (subst scanBuilds.simps) auto
    next
      case False
      with "1.prems" have "i + 1 = length builds" by simp
      then have "scanBuilds ident builds (i + 1) = None"
        by (subst scanBuilds.simps) simp
      with False \<open>k = i\<close> "1.prems" show ?thesis by (subst scanBuilds.simps) auto
    qed
  next
    case False
    with "1.prems" have lt: "k < i" and kl: "k < length builds" by simp_all
    with "1.prems" have ne: "Build_Id (builds ! k) \<noteq> ident" by simp
    have "scanBuilds ident builds (k + 1) =
        (if i + 1 < length builds then Some (builds ! (i + 1)) else None)"
      using "1.IH" [OF kl] ne lt "1.prems" by simp
    with kl ne show ?thesis by (subst scanBuilds.simps) simp
  qed
qed

lemma build_scanGroup_same: "build_scanGroup w p t g = update_scanGroup w p t g"
  by (induction g) (simp_all split: option.splits)

lemma build_previousUpdateFor_same:
  "build_previousUpdateFor w p t gs = update_previousUpdateFor w p t gs"
  by (induction gs) (simp_all add: build_scanGroup_same split: option.splits sum.splits)

lemmas sample_defs = sampleWorld_def sampleUpstream_def sampleParse_def sampleUpdate_def
  sampleGroups_def sampleChannel_def samplePage_def sampleBuild_def samplePayload_def
  foldASCII_def asciiLower_def Platform_Equal_def

lemma slice_7: "slice s 0 7 = Panics \<longleftrightarrow> length s < 7"
  by (auto simp: slice_def)

lemma FormatBuildVersion_panics: "FormatBuildVersion b = Panics \<longleftrightarrow> length (GitCommitHash b) < 7"
  by (simp add: FormatBuildVersion_def slice_7 [symmetric] split: go.splits)

lemma update_blocksFor_panics:
  "update_blocksFor w cfg u (Some prev) = Panics \<longleftrightarrow>
     ParseRFC3339 w (Update_CreatedAt prev) \<noteq> None \<and> length (Update_GitCommitHash prev) < 7"
  by (auto simp: update_blocksFor_def Let_def slice_7 [symmetric] split: option.splits go.splits)

lemma update_blocksFor_short:
  "length (Update_GitCommitHash prev) < 7 \<Longrightarrow> update_blocksFor w cfg u (Some prev) \<noteq> Returns (Inr blocks)"
  by (auto simp: update_blocksFor_def Let_def slice_def split: option.splits go.splits)

lemma build_header_panics:
  "build_header p = Panics \<longleftrightarrow> length (GitCommitHash (Version (bld_Metadata p))) < 7"
  by (simp add: build_header_def FormatBuildVersion_panics [symmetric] split: go.splits)

lemma build_previousBuildSection_panics:
  "build_previousBuildSection w p pb = Panics \<longleftrightarrow>
     (\<exists>b. pb = Some b \<and> ParseRFC3339 w (Build_CreatedAt b) \<noteq> None
        \<and> length (GitCommitHash (Build_Metadata b)) < 7)"
  by (auto simp: build_previousBuildSection_def FormatBuildVersion_panics [symmetric]
      split: option.splits go.splits)

lemma build_previousBuildSection_short:
  "length (GitCommitHash (Build_Metadata b)) < 7 \<Longrightarrow>
     build_previousBuildSection w p (Some b) \<noteq> Returns (Inr blocks)"
  using FormatBuildVersion_panics [of "Build_Metadata b"]
  by (auto simp: build_previousBuildSection_def split: option.splits go.splits)

lemma build_previousUpdateSection_panics:
  "build_previousUpdateSection w p pu = Panics \<longleftrightarrow>
     (\<exists>u. pu = Some u \<and> ParseRFC3339 w (Update_CreatedAt u) \<noteq> None
        \<and> length (Update_GitCommitHash u) < 7)"
  by (auto simp: build_previousUpdateSection_def slice_7 [symmetric]
      split: option.splits go.splits)

lemma build_previousUpdateSection_short:
  "length (Update_GitCommitHash u) < 7 \<Longrightarrow>
     build_previousUpdateSection w p (Some u) \<noteq> Returns (Inr blocks)"
  by (auto simp: build_previousUpdateSection_def slice_def split: option.splits go.splits)

lemma build_blocksFor_Inr:
  "build_blocksFor w cfg p pb pu = Returns (Inr blocks) \<Longrightarrow>
     (\<exists>h. build_header p = Returns h) \<and> (\<exists>bs. build_previousBuildSection w p pb = Returns (Inr bs))
     \<and> (\<exists>us. build_previousUpdateSection w p pu = Returns (Inr us))"
  by (auto simp: build_blocksFor_def split: go.splits sum.splits)

lemma build_blocksFor_Panics:
  "build_blocksFor w cfg p pb pu = Panics \<Longrightarrow>
     build_header p = Panics \<or> build_previousBuildSection w p pb = Panics
     \<or> build_previousUpdateSection w p pu = Panics"
  by (auto simp: build_blocksFor_def split: go.splits sum.splits)

lemmas status_defs = StatusOK_def StatusBadRequest_def StatusUnauthorized_def
  StatusMethodNotAllowed_def StatusInternalServerError_def

lemma sample_signature:
  "expectedSignature sampleServer sampleConfig body = ''sha1=deadbeef''"
  by (simp add: expectedSignature_def sampleServer_def sampleWorld_def hex_EncodeToString_def
      hexDigit_def)

lemmas sample_request_defs = sampleServer_def sampleWorld_def sampleConfig_def sampleRequest_def
  hex_EncodeToString_def hexDigit_def

text \<open>
  Evaluation of the float64 model on numerals, and the four renderings that the
  specification gives as examples.
\<close>

lemma bitLen_0: "bitLen 0 = 0"
  by (simp add: bitLen.simps)

lemma bitLen_1: "bitLen (Suc 0) = Suc 0"
  by (simp add: bitLen.simps)

lemma bitLen_numeral: "bitLen (numeral k) = Suc (bitLen (numeral k div 2))"
  by (subst bitLen.simps) simp

lemma digitsOf_small: "n < 10 \<Longrightarrow> digitsOf n = [digitChar n]"
  by (subst digitsOf.simps) simp

lemma digitsOf_numeral:
  "digitsOf (numeral k) =
     (if numeral k < (10::nat) then [digitChar (numeral k)]
      else digitsOf (numeral k div 10) @ [digitChar (numeral k mod 10)])"
  by (subst digitsOf.simps) simp

lemmas f64_eval = Seconds_def Minutes_def Hours_def f64_div_def f64_add_def f64_of_int_def
  f64_round_def f64_to_int_def f64_num_def f64_den_def tdiv_def tmod_def Hour_def Minute_def
  Second_def bitLen_0 bitLen_1 bitLen_numeral Let_def

lemmas itoa_eval = itoa_def digitsOf_numeral digitsOf_small digitChar_def

lemma seconds_45: "f64_to_int (Seconds 45000000000) = 45"
  by (simp add: f64_eval)

lemma minutes_90s: "f64_to_int (Minutes 90000000000) = 1"
  by (simp add: f64_eval)

lemma days_25h: "f64_to_int (f64_div (Hours 90000000000000) (f64_of_int 24)) = 1"
  by (simp add: f64_eval)

lemma years_400d: "f64_to_int (f64_div (Hours 34560000000000000) (f64_of_int 8760)) = 1"
  by (simp add: f64_eval)

lemma hours_below_360d: "Hours 31103999999999999 = (4749890231992320, - 39)"
  by (simp add: f64_eval)

lemma months_below_360d:
  "f64_to_int (f64_div (Hours 31103999999999999) (f64_of_int 720)) = 12"
  unfolding hours_below_360d by (simp add: f64_eval)

lemma formatDuration_examples:
  "update_formatDuration (45 * Second) = ''45 seconds''
   \<and> update_formatDuration (90 * Second) = ''1 minutes''
   \<and> update_formatDuration (25 * Hour) = ''1 days''
   \<and> update_formatDuration (400 * 24 * Hour) = ''1 years''
   \<and> build_formatDuration (45 * Second) = ''45 seconds''
   \<and> build_formatDuration (90 * Second) = ''1 minutes''
   \<and> build_formatDuration (25 * Hour) = ''1 days''
   \<and> build_formatDuration (400 * 24 * Hour) = ''1 years''"
  by (simp add: update_formatDuration_def build_formatDuration_def Hour_def Minute_def Second_def
      seconds_45 minutes_90s days_25h years_400d itoa_eval)

section \<open>Results\<close>

text \<open>
  Claim C7, as the code has it. On the supported values the four lookups return fixed
  strings, and on every other string a fixed fallback: \<open>:grey_question:\<close> for
  \<open>PlatformEmoji\<close>, \<open>Unknown platform \<close> (capitalised, with a trailing space) for
  \<open>PlatformDisplay\<close>, \<open>in an unknown state\<close> for \<open>StatusDisplay\<close>, and
  \<open>:black_circle:\<close>, not the grey question mark, for \<open>StatusEmoji\<close>. The functions
  are total: they have no failing branch.
\<close>

theorem display_lookups_total:
  "PlatformEmoji ''android'' = '':android:'' \<and> PlatformEmoji ''ios'' = '':apple_logo:''
   \<and> PlatformDisplay ''android'' = ''Android'' \<and> PlatformDisplay ''ios'' = ''iOS''
   \<and> StatusEmoji ''finished'' = '':large_green_circle:''
   \<and> StatusEmoji ''cancelled'' = '':large_yellow_circle:''
   \<and> StatusEmoji ''errored'' = '':red_circle:''
   \<and> StatusDisplay ''finished'' = ''succeeded''
   \<and> StatusDisplay ''cancelled'' = ''cancelled''
   \<and> StatusDisplay ''errored'' = ''errored''
   \<and> (p \<notin> {''android'', ''ios''} \<longrightarrow>
        PlatformEmoji p = '':grey_question:'' \<and> PlatformDisplay p = ''Unknown platform '')
   \<and> (s \<notin> {''finished'', ''cancelled'', ''errored''} \<longrightarrow>
        StatusEmoji s = '':black_circle:'' \<and> StatusDisplay s = ''in an unknown state'')"
  by (simp add: PlatformEmoji_def PlatformDisplay_def StatusEmoji_def StatusDisplay_def
      display_consts)

theorem display_lookups_total_witness:
  "''windows'' \<notin> {''android'', ''ios''}
   \<and> ''paused'' \<notin> {''finished'', ''cancelled'', ''errored''}
   \<and> PlatformEmoji ''windows'' = '':grey_question:''
   \<and> PlatformDisplay ''windows'' = ''Unknown platform ''
   \<and> StatusEmoji ''paused'' = '':black_circle:''
   \<and> StatusDisplay ''paused'' = ''in an unknown state''"
  using display_lookups_total [of "''windows''" "''paused''"] by simp

text \<open>
  Claim C7 as stated gives the grey question mark as the emoji fallback; for an unknown
  status the emoji lookup returns the black circle instead.
\<close>

theorem status_emoji_fallback_counterexample:
  "StatusEmoji ''paused'' \<noteq> '':grey_question:''"
  by (simp add: StatusEmoji_def display_consts)

text \<open>
  Claim C1. \<open>previousUpdateFor\<close>, in either package, walks the groups in order and the
  members of each group in order. A member is passed over when its platform does not
  match or when its timestamp lies strictly after the reference time; a timestamp equal
  to the reference time is not passed over. The first member that is not passed over
  decides the result: an error naming the member when its \<open>CreatedAt\<close> does not parse,
  the member itself otherwise. When every member is passed over (in particular when
  there is no group, or no member of the platform) the result is no update and no error.
\<close>

theorem previousUpdateFor_scan:
  assumes "f = update_previousUpdateFor \<or> f = build_previousUpdateFor"
  shows "(f w p t gs = Inr (Some u) \<longleftrightarrow>
      (\<exists>pre post. concat gs = pre @ u # post \<and> (\<forall>v\<in>set pre. skipped w p t v)
         \<and> Platform_Equal w (Update_Platform u) p
         \<and> (\<exists>tu. ParseRFC3339 w (Update_CreatedAt u) = Some tu \<and> tu \<le> t)))
   \<and> (f w p t gs = Inl e \<longleftrightarrow>
      (\<exists>pre v post. concat gs = pre @ v # post \<and> (\<forall>v\<in>set pre. skipped w p t v)
         \<and> Platform_Equal w (Update_Platform v) p
         \<and> ParseRFC3339 w (Update_CreatedAt v) = None
         \<and> e = FailedToParseCreatedAtFor (Update_Id v)))
   \<and> (f w p t gs = Inr None \<longleftrightarrow> (\<forall>v\<in>set (concat gs). skipped w p t v))"
proof -
  from assms have f: "f w p t gs = update_previousUpdateFor w p t gs"
    by (auto simp: build_previousUpdateFor_same)
  show ?thesis
    unfolding f by (intro conjI previous_found previous_error previous_none)
qed

theorem previousUpdateFor_scan_witness:
  "update_previousUpdateFor sampleWorld ''ios'' 1704153600000000000 sampleGroups =
     Inr (Some (sampleUpdate ''u1'' ''ios'' ''main'' ''2024-01-01T00:00:00Z''))
   \<and> (\<exists>pre post. concat sampleGroups
         = pre @ sampleUpdate ''u1'' ''ios'' ''main'' ''2024-01-01T00:00:00Z'' # post
       \<and> (\<forall>v\<in>set pre. skipped sampleWorld ''ios'' 1704153600000000000 v)
       \<and> (\<exists>tu. sampleParse ''2024-01-01T00:00:00Z'' = Some tu \<and> tu \<le> 1704153600000000000))
   \<and> build_previousUpdateFor sampleWorld ''IOS'' 1704240000000000000 sampleGroups =
     Inr (Some (sampleUpdate ''u3'' ''ios'' ''main'' ''2024-01-03T00:00:00Z''))
   \<and> (\<exists>tu. sampleParse ''2024-01-03T00:00:00Z'' = Some tu \<and> tu \<le> 1704240000000000000)"
proof -
  let ?u1 = "sampleUpdate ''u1'' ''ios'' ''main'' ''2024-01-01T00:00:00Z''"
  let ?u3 = "sampleUpdate ''u3'' ''ios'' ''main'' ''2024-01-03T00:00:00Z''"
  have a: "update_previousUpdateFor sampleWorld ''ios'' 1704153600000000000 sampleGroups
      = Inr (Some ?u1)"
    by (simp add: sample_defs)
  have b: "build_previousUpdateFor sampleWorld ''IOS'' 1704240000000000000 sampleGroups
      = Inr (Some ?u3)"
    by (simp add: sample_defs)
  have pa: "ParseRFC3339 sampleWorld (Update_CreatedAt ?u1) = sampleParse ''2024-01-01T00:00:00Z''"
    and pb: "ParseRFC3339 sampleWorld (Update_CreatedAt ?u3) = sampleParse ''2024-01-03T00:00:00Z''"
    by (simp_all add: sampleWorld_def sampleUpdate_def)
  from a previousUpdateFor_scan [of update_previousUpdateFor sampleWorld "''ios''"
      1704153600000000000 sampleGroups ?u1]
  have "\<exists>pre post. concat sampleGroups = pre @ ?u1 # post
       \<and> (\<forall>v\<in>set pre. skipped sampleWorld ''ios'' 1704153600000000000 v)
       \<and> (\<exists>tu. sampleParse ''2024-01-01T00:00:00Z'' = Some tu \<and> tu \<le> 1704153600000000000)"
    unfolding pa by blast
  moreover
  from b previousUpdateFor_scan [of build_previousUpdateFor sampleWorld "''IOS''"
      1704240000000000000 sampleGroups ?u3]
  have "\<exists>tu. sampleParse ''2024-01-03T00:00:00Z'' = Some tu \<and> tu \<le> 1704240000000000000"
    unfolding pb by blast
  ultimately show ?thesis using a b by blast
qed


text \<open>
  Claim C8. The function \<open>previousUpdateFor\<close> of package update and the function of
  the same name of package build are the same function.
\<close>

theorem previousUpdateFor_shared: "update_previousUpdateFor = build_previousUpdateFor"
  by (intro ext) (simp add: build_previousUpdateFor_same)


text \<open>
  Claim C2. Given the page of builds that was fetched, \<open>fetchPreviousBuild\<close> returns
  the element right after the first element whose \<open>Id\<close> is the new build's, when that
  element is not the last of the page; it returns no build and no error when that
  element is the last of the page, and when no element of the page has the new
  build's \<open>Id\<close>.
\<close>

theorem fetchPreviousBuild_next:
  assumes "FetchBuilds w (bld_AppId p) (Channel (Version (bld_Metadata p))) (bld_Platform p) 10 0
             = Inr builds"
  shows "(i < length builds \<and> Build_Id (builds ! i) = bld_Id p
            \<and> (\<forall>j<i. Build_Id (builds ! j) \<noteq> bld_Id p) \<and> i + 1 < length builds
          \<longrightarrow> fst (fetchPreviousBuild w p) = Inr (Some (builds ! (i + 1))))
       \<and> (i < length builds \<and> Build_Id (builds ! i) = bld_Id p
            \<and> (\<forall>j<i. Build_Id (builds ! j) \<noteq> bld_Id p) \<and> i + 1 = length builds
          \<longrightarrow> fst (fetchPreviousBuild w p) = Inr None)
       \<and> ((\<forall>j<length builds. Build_Id (builds ! j) \<noteq> bld_Id p)
          \<longrightarrow> fst (fetchPreviousBuild w p) = Inr None)"
proof -
  have r: "fst (fetchPreviousBuild w p) = Inr (scanBuilds (bld_Id p) builds 0)"
    using assms by (simp add: fetchPreviousBuild_def)
  have found: "scanBuilds (bld_Id p) builds 0 =
      (if i + 1 < length builds then Some (builds ! (i + 1)) else None)"
    if "i < length builds" "Build_Id (builds ! i) = bld_Id p"
       "\<forall>j<i. Build_Id (builds ! j) \<noteq> bld_Id p"
    using that by (intro scanBuilds_first) simp_all
  have absent: "scanBuilds (bld_Id p) builds 0 = None"
    if "\<forall>j<length builds. Build_Id (builds ! j) \<noteq> bld_Id p"
    using that by (intro scanBuilds_none) simp
  show ?thesis
    unfolding r using found absent by simp
qed

theorem fetchPreviousBuild_next_witness:
  "fst (fetchPreviousBuild sampleUpstream (samplePayload ''B2'' ''2024-01-02T00:00:00Z''))
     = Inr (Some (sampleBuild ''B1''))
   \<and> fst (fetchPreviousBuild sampleUpstream (samplePayload ''B1'' ''2024-01-02T00:00:00Z''))
     = Inr None
   \<and> fst (fetchPreviousBuild sampleUpstream (samplePayload ''B9'' ''2024-01-02T00:00:00Z''))
     = Inr None"
proof -
  have f: "\<And>x. FetchBuilds sampleUpstream (bld_AppId (samplePayload x ''2024-01-02T00:00:00Z''))
       (Channel (Version (bld_Metadata (samplePayload x ''2024-01-02T00:00:00Z''))))
       (bld_Platform (samplePayload x ''2024-01-02T00:00:00Z'')) 10 0 = Inr samplePage"
    by (simp add: sampleUpstream_def sampleWorld_def)
  have lt: "\<And>P n. (\<forall>j<Suc n. P j) = ((\<forall>j<n. P j) \<and> P n)"
    by (auto simp: less_Suc_eq)
  have a: "fst (fetchPreviousBuild sampleUpstream (samplePayload ''B2'' ''2024-01-02T00:00:00Z''))
     = Inr (Some (sampleBuild ''B1''))"
    using fetchPreviousBuild_next [OF f [of "''B2''"], where i = "Suc 0"]
    by (simp add: samplePage_def sampleBuild_def samplePayload_def)
  have b: "fst (fetchPreviousBuild sampleUpstream (samplePayload ''B1'' ''2024-01-02T00:00:00Z''))
     = Inr None"
    using fetchPreviousBuild_next [OF f [of "''B1''"], where i = "Suc (Suc 0)"]
    by (simp add: samplePage_def sampleBuild_def samplePayload_def lt)
  have c: "fst (fetchPreviousBuild sampleUpstream (samplePayload ''B9'' ''2024-01-02T00:00:00Z''))
     = Inr None"
    using fetchPreviousBuild_next [OF f [of "''B9''"], where i = 0]
    by (simp add: samplePage_def sampleBuild_def samplePayload_def lt)
  from a b c show ?thesis by simp
qed


text \<open>
  Claim C3, as the code has it. \<open>fetchPreviousUpdate\<close> of package build first parses
  the build's \<open>createdAt\<close> and fails, without any query, when it does not parse. It then
  queries the update channel named by the build's channel (failing when the query
  fails) and takes the branch name of the first update, over all branches, groups and
  members in order, whose platform matches the build's; it fails when no update matches
  and also when that branch name is empty. Otherwise it queries the updates of that
  branch (ten, from the start) and runs \<open>previousUpdateFor\<close> on them with the build's
  creation time as the reference.
\<close>

theorem build_fetchPreviousUpdate_steps:
  "(ParseRFC3339 w (bld_CreatedAt p) = None \<longrightarrow>
      build_fetchPreviousUpdate w p = (Inl FailedToParseCreatedAt, []))
   \<and> (ParseRFC3339 w (bld_CreatedAt p) = Some t
       \<and> FetchUpdateChannel w (bld_AppId p) (Channel (Version (bld_Metadata p))) = Inl e \<longrightarrow>
      build_fetchPreviousUpdate w p =
        (Inl (FailedToFetchUpdateChannel e),
         [CallFetchUpdateChannel (bld_AppId p) (Channel (Version (bld_Metadata p)))]))
   \<and> (ParseRFC3339 w (bld_CreatedAt p) = Some t
       \<and> FetchUpdateChannel w (bld_AppId p) (Channel (Version (bld_Metadata p))) = Inr c \<longrightarrow>
      build_fetchPreviousUpdate w p =
        (case List.find (matching w (bld_Platform p)) (channelUpdates c) of
           None \<Rightarrow>
             (Inl (FailedToFindUpdateBranch (bld_Platform p)),
              [CallFetchUpdateChannel (bld_AppId p) (Channel (Version (bld_Metadata p)))])
         | Some u \<Rightarrow>
             if branchOf u = ''''
             then (Inl (FailedToFindUpdateBranch (bld_Platform p)),
                   [CallFetchUpdateChannel (bld_AppId p) (Channel (Version (bld_Metadata p)))])
             else (case FetchUpdates w (bld_AppId p) (branchOf u) 10 0 of
                     Inl e' \<Rightarrow> Inl (FailedToFetchUpdates e')
                   | Inr updates \<Rightarrow> build_previousUpdateFor w (bld_Platform p) t updates,
                   [CallFetchUpdateChannel (bld_AppId p) (Channel (Version (bld_Metadata p))),
                    CallFetchUpdates (bld_AppId p) (branchOf u) 10 0])))"
  by (simp add: build_fetchPreviousUpdate_def updateBranchFor_def branchInBranches_find
      channelUpdates_def Let_def split: option.splits)

theorem build_fetchPreviousUpdate_steps_witness:
  "ParseRFC3339 sampleUpstream ''2024-01-02T00:00:00Z'' = Some 1704153600000000000
   \<and> FetchUpdateChannel sampleUpstream ''app'' ''production'' = Inr sampleChannel
   \<and> List.find (matching sampleUpstream ''ios'') (channelUpdates sampleChannel)
       = Some (sampleUpdate ''u3'' ''ios'' ''main'' ''2024-01-03T00:00:00Z'')
   \<and> build_fetchPreviousUpdate sampleUpstream (samplePayload ''B2'' ''2024-01-02T00:00:00Z'')
       = (Inr (Some (sampleUpdate ''u1'' ''ios'' ''main'' ''2024-01-01T00:00:00Z'')),
          [CallFetchUpdateChannel ''app'' ''production'', CallFetchUpdates ''app'' ''main'' 10 0])"
  using build_fetchPreviousUpdate_steps [of sampleUpstream
      "samplePayload ''B2'' ''2024-01-02T00:00:00Z''" 1704153600000000000 "Upstream ''none''" sampleChannel]
  by (simp add: sample_defs matching_def branchOf_def channelUpdates_def)


text \<open>
  Claim C3 as stated says that for every payload the channel is fetched first and the
  first matching update's branch is then fetched: a payload whose \<open>createdAt\<close> does not
  parse causes no query at all, and a first matching update with an empty branch name
  ends the resolution after the channel query.
\<close>

theorem build_fetchPreviousUpdate_counterexample:
  "build_fetchPreviousUpdate sampleUpstream (samplePayload ''B2'' ''yesterday'')
     = (Inl FailedToParseCreatedAt, [])
   \<and> build_fetchPreviousUpdate
       (sampleUpstream \<lparr> FetchUpdateChannel := (\<lambda>app channel. Inr sampleChannelNoName) \<rparr>)
       (samplePayload ''B2'' ''2024-01-02T00:00:00Z'')
     = (Inl (FailedToFindUpdateBranch ''ios''),
        [CallFetchUpdateChannel ''app'' ''production''])"
  by (simp add: build_fetchPreviousUpdate_def updateBranchFor_def sample_defs
      sampleChannelNoName_def)


text \<open>
  Claim C4. Each of the three handlers answers 405 when the method is not POST;
  otherwise 500 when the body cannot be read; otherwise 401 when the signature header
  (\<open>signature\<close> on the update route, \<open>expo-signature\<close> on the build and submit routes)
  differs from \<open>sha1=\<close> followed by the lower-case hexadecimal HMAC-SHA1 of the body
  under the shared secret; otherwise 400 when the body does not parse as the route's
  payload; otherwise 200, and that status is the first event of the run, before every
  event of the enrichment. In the four failing cases the status is the only event.
\<close>

theorem handle_status:
  "(Method r \<noteq> ''POST'' \<longrightarrow>
      update_Handle w cfg r = ([WriteHeader 405], Returned)
      \<and> build_Handle w cfg r = ([WriteHeader 405], Returned)
      \<and> submit_Handle w cfg r = ([WriteHeader 405], Returned))
   \<and> (Method r = ''POST'' \<and> Body r = Inl e \<longrightarrow>
      update_Handle w cfg r = ([WriteHeader 500], Returned)
      \<and> build_Handle w cfg r = ([WriteHeader 500], Returned)
      \<and> submit_Handle w cfg r = ([WriteHeader 500], Returned))
   \<and> (Method r = ''POST'' \<and> Body r = Inr body
       \<and> Header_Get r ''signature''
            \<noteq> ''sha1='' @ hex_EncodeToString (HmacSha1 w (ExpoHMACSecret cfg) body) \<longrightarrow>
      update_Handle w cfg r = ([WriteHeader 401], Returned))
   \<and> (Method r = ''POST'' \<and> Body r = Inr body
       \<and> Header_Get r ''expo-signature''
            \<noteq> ''sha1='' @ hex_EncodeToString (HmacSha1 w (ExpoHMACSecret cfg) body) \<longrightarrow>
      build_Handle w cfg r = ([WriteHeader 401], Returned)
      \<and> submit_Handle w cfg r = ([WriteHeader 401], Returned))
   \<and> (Method r = ''POST'' \<and> Body r = Inr body
       \<and> Header_Get r ''signature''
            = ''sha1='' @ hex_EncodeToString (HmacSha1 w (ExpoHMACSecret cfg) body) \<longrightarrow>
      (UnmarshalUpdates w body = None \<longrightarrow>
         update_Handle w cfg r = ([WriteHeader 400], Returned))
      \<and> (UnmarshalUpdates w body = Some us \<longrightarrow>
         fst (update_Handle w cfg r) = WriteHeader 200 # fst (update_handlePayload w cfg us)))
   \<and> (Method r = ''POST'' \<and> Body r = Inr body
       \<and> Header_Get r ''expo-signature''
            = ''sha1='' @ hex_EncodeToString (HmacSha1 w (ExpoHMACSecret cfg) body) \<longrightarrow>
      (UnmarshalBuild w body = None \<longrightarrow>
         build_Handle w cfg r = ([WriteHeader 400], Returned))
      \<and> (UnmarshalBuild w body = Some bp \<longrightarrow>
         fst (build_Handle w cfg r) = WriteHeader 200 # fst (build_handlePayload w cfg bp))
      \<and> (UnmarshalSubmit w body = None \<longrightarrow>
         submit_Handle w cfg r = ([WriteHeader 400], Returned))
      \<and> (UnmarshalSubmit w body = Some sp \<longrightarrow>
         fst (submit_Handle w cfg r) = WriteHeader 200 # fst (submit_handlePayload w cfg sp)))"
  by (auto simp: update_Handle_def build_Handle_def submit_Handle_def expectedSignature_def
      status_defs split: prod.splits)

theorem handle_status_witness:
  "update_Handle sampleServer sampleConfig (sampleRequest ''GET'' (Inr ''[]'') ''sha1=deadbeef'')
     = ([WriteHeader 405], Returned)
   \<and> update_Handle sampleServer sampleConfig
       (sampleRequest ''POST'' (Inl (Upstream ''unexpected EOF'')) ''sha1=deadbeef'')
     = ([WriteHeader 500], Returned)
   \<and> update_Handle sampleServer sampleConfig (sampleRequest ''POST'' (Inr ''[]'') ''sha1=DEADBEEF'')
     = ([WriteHeader 401], Returned)
   \<and> build_Handle sampleServer sampleConfig (sampleRequest ''POST'' (Inr ''{B2}'') ''sha1='')
     = ([WriteHeader 401], Returned)
   \<and> submit_Handle sampleServer sampleConfig (sampleRequest ''POST'' (Inr ''{'') ''sha1=deadbeef'')
     = ([WriteHeader 400], Returned)
   \<and> fst (update_Handle sampleServer sampleConfig
         (sampleRequest ''POST'' (Inr ''[]'') ''sha1=deadbeef''))
     = [WriteHeader 200]"
proof -
  have a: "update_Handle sampleServer sampleConfig
      (sampleRequest ''GET'' (Inr ''[]'') ''sha1=deadbeef'') = ([WriteHeader 405], Returned)"
    using handle_status [where r = "sampleRequest ''GET'' (Inr ''[]'') ''sha1=deadbeef''"
        and w = sampleServer and cfg = sampleConfig]
    by (simp add: sample_request_defs)
  have b: "update_Handle sampleServer sampleConfig
      (sampleRequest ''POST'' (Inl (Upstream ''unexpected EOF'')) ''sha1=deadbeef'')
      = ([WriteHeader 500], Returned)"
    using handle_status [where r = "sampleRequest ''POST'' (Inl (Upstream ''unexpected EOF'')) ''sha1=deadbeef''"
        and w = sampleServer and cfg = sampleConfig and e = "Upstream ''unexpected EOF''"]
    by (simp add: sample_request_defs)
  have c: "update_Handle sampleServer sampleConfig
      (sampleRequest ''POST'' (Inr ''[]'') ''sha1=DEADBEEF'') = ([WriteHeader 401], Returned)"
    using handle_status [where r = "sampleRequest ''POST'' (Inr ''[]'') ''sha1=DEADBEEF''"
        and w = sampleServer and cfg = sampleConfig and body = "''[]''"]
    by (simp add: sample_request_defs)
  have d: "build_Handle sampleServer sampleConfig (sampleRequest ''POST'' (Inr ''{B2}'') ''sha1='')
      = ([WriteHeader 401], Returned)"
    using handle_status [where r = "sampleRequest ''POST'' (Inr ''{B2}'') ''sha1=''"
        and w = sampleServer and cfg = sampleConfig and body = "''{B2}''"]
    by (simp add: sample_request_defs)
  have e: "submit_Handle sampleServer sampleConfig
      (sampleRequest ''POST'' (Inr ''{'') ''sha1=deadbeef'') = ([WriteHeader 400], Returned)"
    using handle_status [where r = "sampleRequest ''POST'' (Inr ''{'') ''sha1=deadbeef''"
        and w = sampleServer and cfg = sampleConfig and body = "''{''"]
    by (simp add: sample_request_defs)
  have f: "fst (update_Handle sampleServer sampleConfig
      (sampleRequest ''POST'' (Inr ''[]'') ''sha1=deadbeef'')) = [WriteHeader 200]"
    using handle_status [where r = "sampleRequest ''POST'' (Inr ''[]'') ''sha1=deadbeef''"
        and w = sampleServer and cfg = sampleConfig and body = "''[]''" and us = "[]"]
    by (simp add: sample_request_defs)
  from a b c d e f show ?thesis by simp
qed


text \<open>
  Claim C5. Lengths are Go's \<open>len\<close>, a count of bytes. \<open>FormatBuildVersion\<close> panics
  exactly when the commit hash is shorter than 7. \<open>blocksFor\<close> of package update, given
  a previous update with a hash shorter than 7, never returns blocks: it panics at the
  slice, unless the previous update's timestamp does not parse, in which case it has
  already returned an error. \<open>blocksFor\<close> of package build panics when the new build's
  hash is shorter than 7 and never returns blocks when the previous build's or the
  previous update's hash is. Neither function panics when every hash it renders has
  at least 7 bytes.
\<close>

theorem commit_hash_slicing:
  "(length (GitCommitHash m) < 7 \<longrightarrow> FormatBuildVersion m = Panics)
   \<and> (7 \<le> length (GitCommitHash m) \<longrightarrow> FormatBuildVersion m \<noteq> Panics)
   \<and> (length (Update_GitCommitHash prev) < 7 \<longrightarrow>
        update_blocksFor w cfg u (Some prev) \<noteq> Returns (Inr blocks)
        \<and> (ParseRFC3339 w (Update_CreatedAt prev) \<noteq> None \<longrightarrow>
             update_blocksFor w cfg u (Some prev) = Panics))
   \<and> (7 \<le> length (Update_GitCommitHash prev) \<longrightarrow>
        update_blocksFor w cfg u (Some prev) \<noteq> Panics)
   \<and> update_blocksFor w cfg u None \<noteq> Panics
   \<and> (length (GitCommitHash (Version (bld_Metadata p))) < 7 \<longrightarrow>
        build_blocksFor w cfg p pb pu = Panics)
   \<and> (length (GitCommitHash (Build_Metadata b)) < 7 \<longrightarrow>
        build_blocksFor w cfg p (Some b) pu \<noteq> Returns (Inr blocks))
   \<and> (length (Update_GitCommitHash prev) < 7 \<longrightarrow>
        build_blocksFor w cfg p pb (Some prev) \<noteq> Returns (Inr blocks))
   \<and> (7 \<le> length (GitCommitHash (Version (bld_Metadata p)))
       \<and> (\<forall>b'. pb = Some b' \<longrightarrow> 7 \<le> length (GitCommitHash (Build_Metadata b')))
       \<and> (\<forall>u'. pu = Some u' \<longrightarrow> 7 \<le> length (Update_GitCommitHash u'))
       \<longrightarrow> build_blocksFor w cfg p pb pu \<noteq> Panics)"
proof (intro conjI impI)
  assume "length (GitCommitHash m) < 7"
  then show "FormatBuildVersion m = Panics" by (simp add: FormatBuildVersion_panics)
next
  assume "7 \<le> length (GitCommitHash m)"
  then show "FormatBuildVersion m \<noteq> Panics" by (simp add: FormatBuildVersion_panics)
next
  assume "length (Update_GitCommitHash prev) < 7"
  then show "update_blocksFor w cfg u (Some prev) \<noteq> Returns (Inr blocks)"
    by (rule update_blocksFor_short)
next
  assume "length (Update_GitCommitHash prev) < 7"
    and "ParseRFC3339 w (Update_CreatedAt prev) \<noteq> None"
  then show "update_blocksFor w cfg u (Some prev) = Panics"
    by (simp add: update_blocksFor_panics)
next
  assume "7 \<le> length (Update_GitCommitHash prev)"
  then show "update_blocksFor w cfg u (Some prev) \<noteq> Panics"
    by (simp add: update_blocksFor_panics)
next
  show "update_blocksFor w cfg u None \<noteq> Panics"
    by (simp add: update_blocksFor_def Let_def)
next
  assume "length (GitCommitHash (Version (bld_Metadata p))) < 7"
  then have "build_header p = Panics" by (simp add: build_header_panics)
  then show "build_blocksFor w cfg p pb pu = Panics" by (simp add: build_blocksFor_def)
next
  assume "length (GitCommitHash (Build_Metadata b)) < 7"
  then show "build_blocksFor w cfg p (Some b) pu \<noteq> Returns (Inr blocks)"
    using build_blocksFor_Inr [of w cfg p "Some b" pu blocks] build_previousBuildSection_short [of b w p]
    by blast
next
  assume "length (Update_GitCommitHash prev) < 7"
  then show "build_blocksFor w cfg p pb (Some prev) \<noteq> Returns (Inr blocks)"
    using build_blocksFor_Inr [of w cfg p pb "Some prev" blocks]
      build_previousUpdateSection_short [of prev w p]
    by blast
next
  assume a: "7 \<le> length (GitCommitHash (Version (bld_Metadata p)))
       \<and> (\<forall>b'. pb = Some b' \<longrightarrow> 7 \<le> length (GitCommitHash (Build_Metadata b')))
       \<and> (\<forall>u'. pu = Some u' \<longrightarrow> 7 \<le> length (Update_GitCommitHash u'))"
  then have "build_header p \<noteq> Panics" "build_previousBuildSection w p pb \<noteq> Panics"
      "build_previousUpdateSection w p pu \<noteq> Panics"
    by (auto simp: build_header_panics build_previousBuildSection_panics
        build_previousUpdateSection_panics)
  then show "build_blocksFor w cfg p pb pu \<noteq> Panics"
    using build_blocksFor_Panics [of w cfg p pb pu] by blast
qed

theorem commit_hash_slicing_witness:
  "length ''abc'' < 7
   \<and> FormatBuildVersion \<lparr> Channel = ''production'', AppVersion = ''1.0'',
        AppBuildVersion = ''7'', GitCommitHash = ''abc'' \<rparr> = Panics
   \<and> 7 \<le> length ''0123456789abcdef''
   \<and> FormatBuildVersion (Build_Metadata (sampleBuild ''B1'')) \<noteq> Panics
   \<and> update_blocksFor sampleWorld sampleConfig (sampleUpdatePayload ''u9'' ''main'')
        (Some ((sampleUpdate ''u1'' ''ios'' ''main'' ''2024-01-01T00:00:00Z'')
                 \<lparr> Update_GitCommitHash := ''abc'' \<rparr>)) = Panics
   \<and> update_blocksFor sampleWorld sampleConfig (sampleUpdatePayload ''u9'' ''main'')
        (Some (sampleUpdate ''u1'' ''ios'' ''main'' ''2024-01-01T00:00:00Z'')) \<noteq> Panics
   \<and> build_blocksFor sampleWorld sampleConfig (samplePayload ''B2'' ''2024-01-02T00:00:00Z'')
        (Some (sampleBuild ''B1''))
        (Some (sampleUpdate ''u1'' ''ios'' ''main'' ''2024-01-01T00:00:00Z'')) \<noteq> Panics"
proof -
  let ?short = "(sampleUpdate ''u1'' ''ios'' ''main'' ''2024-01-01T00:00:00Z'')
                 \<lparr> Update_GitCommitHash := ''abc'' \<rparr>"
  let ?long = "sampleUpdate ''u1'' ''ios'' ''main'' ''2024-01-01T00:00:00Z''"
  have a: "FormatBuildVersion \<lparr> Channel = ''production'', AppVersion = ''1.0'',
        AppBuildVersion = ''7'', GitCommitHash = ''abc'' \<rparr> = Panics"
    using commit_hash_slicing [where m = "\<lparr> Channel = ''production'', AppVersion = ''1.0'',
        AppBuildVersion = ''7'', GitCommitHash = ''abc'' \<rparr>"]
    by simp
  have b: "FormatBuildVersion (Build_Metadata (sampleBuild ''B1'')) \<noteq> Panics"
    using commit_hash_slicing [where m = "Build_Metadata (sampleBuild ''B1'')"]
    by (simp add: sampleBuild_def)
  have c: "update_blocksFor sampleWorld sampleConfig (sampleUpdatePayload ''u9'' ''main'')
        (Some ?short) = Panics"
    using commit_hash_slicing [where prev = ?short and w = sampleWorld and cfg = sampleConfig
        and u = "sampleUpdatePayload ''u9'' ''main''"]
    by (simp add: sampleUpdate_def sampleWorld_def sampleParse_def)
  have d: "update_blocksFor sampleWorld sampleConfig (sampleUpdatePayload ''u9'' ''main'')
        (Some ?long) \<noteq> Panics"
    using commit_hash_slicing [where prev = ?long and w = sampleWorld and cfg = sampleConfig
        and u = "sampleUpdatePayload ''u9'' ''main''"]
    by (simp add: sampleUpdate_def)
  have e: "build_blocksFor sampleWorld sampleConfig (samplePayload ''B2'' ''2024-01-02T00:00:00Z'')
        (Some (sampleBuild ''B1'')) (Some ?long) \<noteq> Panics"
    using commit_hash_slicing [where w = sampleWorld and cfg = sampleConfig
        and p = "samplePayload ''B2'' ''2024-01-02T00:00:00Z''"
        and pb = "Some (sampleBuild ''B1'')" and pu = "Some ?long"]
    by (simp add: sampleUpdate_def sampleBuild_def samplePayload_def)
  from a b c d e show ?thesis by simp
qed


text \<open>
  Claim C9, at an input where the code leaves it. The comments in \<open>Handle\<close> say that the
  webhook is acknowledged as soon as possible and that the data is forwarded to the
  chat afterwards, which is what the claim describes. But \<open>handlePayload\<close> is an
  ordinary call in the body of \<open>Handle\<close> and no goroutine is started: on a valid update
  webhook the upstream query and the chat message are events of the handler's own run,
  and the handler returns only after them.
\<close>

theorem update_Handle_awaits_enrichment:
  "update_Handle sampleServer sampleConfig (sampleRequest ''POST'' (Inr ''[u9]'') ''sha1=deadbeef'')
     = ([WriteHeader 200,
         CallFetchUpdates ''app'' ''main'' 10 0,
         CallPostMessage ''#builds''
           [HeaderBlock '':arrows_counterclockwise::apple_logo::large_green_circle:| iOS OTA update succeeded.'',
            SectionBlock ''See update details <https://expo.dev/accounts/nwac/projects/avalanche-forecast/updates/u9|here>.'']],
        Returned)"
  by (simp add: update_Handle_def update_fetchPreviousUpdate_def update_blocksFor_def orNil_def
      expectedSignature_def sample_request_defs sampleUpdatePayload_def sampleParse_def
      status_defs PlatformEmoji_def PlatformDisplay_def StatusEmoji_def StatusDisplay_def
      display_consts)


text \<open>
  Claim C10. When \<open>ALLOW_PREVIEW\<close> is unset, an update whose branch name starts with
  \<open>xxx\<close> contributes nothing to the run of \<open>handlePayload\<close> of package update: no query
  for a previous update, no message. The run on the whole payload is the run on the
  payload without that update, and the updates after it are still processed: the run
  goes on with the next update, whose previous update is queried and whose message,
  when its blocks are built, is posted, followed by the run on the updates after that
  one.
\<close>

theorem preview_update_skipped:
  assumes "LookupEnv w ''ALLOW_PREVIEW'' = None" and "prefix ''xxx'' (upd_Branch u)"
  shows "update_handlePayload w cfg (before @ u # after) = update_handlePayload w cfg (before @ after)
       \<and> update_handlePayload w cfg [u] = ([], Returned)
       \<and> (\<not> prefix ''xxx'' (upd_Branch v) \<longrightarrow>
            update_handlePayload w cfg (u # v # rest) =
              (case update_blocksFor w cfg v (orNil (fst (update_fetchPreviousUpdate w v))) of
                 Panics \<Rightarrow> (snd (update_fetchPreviousUpdate w v), Panicked)
               | Returns (Inl e) \<Rightarrow> (snd (update_fetchPreviousUpdate w v), Returned)
               | Returns (Inr blocks) \<Rightarrow>
                   (snd (update_fetchPreviousUpdate w v)
                      @ [CallPostMessage (SlackChannel cfg) blocks]
                      @ fst (update_handlePayload w cfg rest),
                    snd (update_handlePayload w cfg rest))))"
proof (intro conjI impI)
  show "update_handlePayload w cfg (before @ u # after) = update_handlePayload w cfg (before @ after)"
    using assms by (induction before) (simp_all split: prod.splits go.splits sum.splits)
next
  show "update_handlePayload w cfg [u] = ([], Returned)"
    using assms by simp
next
  assume "\<not> prefix ''xxx'' (upd_Branch v)"
  then show "update_handlePayload w cfg (u # v # rest) =
              (case update_blocksFor w cfg v (orNil (fst (update_fetchPreviousUpdate w v))) of
                 Panics \<Rightarrow> (snd (update_fetchPreviousUpdate w v), Panicked)
               | Returns (Inl e) \<Rightarrow> (snd (update_fetchPreviousUpdate w v), Returned)
               | Returns (Inr blocks) \<Rightarrow>
                   (snd (update_fetchPreviousUpdate w v)
                      @ [CallPostMessage (SlackChannel cfg) blocks]
                      @ fst (update_handlePayload w cfg rest),
                    snd (update_handlePayload w cfg rest)))"
    using assms by (simp split: prod.splits go.splits sum.splits)
qed

theorem preview_update_skipped_witness:
  "LookupEnv sampleWorld ''ALLOW_PREVIEW'' = None
   \<and> prefix ''xxx'' (upd_Branch (sampleUpdatePayload ''u8'' ''xxx-preview''))
   \<and> \<not> prefix ''xxx'' (upd_Branch (sampleUpdatePayload ''u9'' ''main''))
   \<and> update_handlePayload sampleWorld sampleConfig [sampleUpdatePayload ''u8'' ''xxx-preview'']
      = ([], Returned)
   \<and> update_handlePayload sampleWorld sampleConfig
        [sampleUpdatePayload ''u8'' ''xxx-preview'', sampleUpdatePayload ''u9'' ''main'',
         sampleUpdatePayload ''u7'' ''main'']
      = ([CallFetchUpdates ''app'' ''main'' 10 0,
          CallPostMessage ''#builds''
            [HeaderBlock '':arrows_counterclockwise::apple_logo::large_green_circle:| iOS OTA update succeeded.'',
             SectionBlock ''See update details <https://expo.dev/accounts/nwac/projects/avalanche-forecast/updates/u9|here>.''],
          CallFetchUpdates ''app'' ''main'' 10 0,
          CallPostMessage ''#builds''
            [HeaderBlock '':arrows_counterclockwise::apple_logo::large_green_circle:| iOS OTA update succeeded.'',
             SectionBlock ''See update details <https://expo.dev/accounts/nwac/projects/avalanche-forecast/updates/u7|here>.'']],
         Returned)"
proof -
  let ?u8 = "sampleUpdatePayload ''u8'' ''xxx-preview''"
  let ?u9 = "sampleUpdatePayload ''u9'' ''main''"
  let ?u7 = "sampleUpdatePayload ''u7'' ''main''"
  have a: "LookupEnv sampleWorld ''ALLOW_PREVIEW'' = None"
    by (simp add: sampleWorld_def)
  have b: "prefix ''xxx'' (upd_Branch ?u8)"
    by (simp add: sampleUpdatePayload_def)
  have c: "\<not> prefix ''xxx'' (upd_Branch ?u9)" "\<not> prefix ''xxx'' (upd_Branch ?u7)"
    by (simp_all add: sampleUpdatePayload_def)
  have f: "\<And>i. update_fetchPreviousUpdate sampleWorld (sampleUpdatePayload i ''main'')
      = (Inl (FailedToFetchUpdates (Upstream ''unavailable'')), [CallFetchUpdates ''app'' ''main'' 10 0])"
    by (simp add: update_fetchPreviousUpdate_def sampleWorld_def sampleUpdatePayload_def
        sampleParse_def)
  have g: "\<And>i. update_blocksFor sampleWorld sampleConfig (sampleUpdatePayload i ''main'') None
      = Returns (Inr
          [HeaderBlock '':arrows_counterclockwise::apple_logo::large_green_circle:| iOS OTA update succeeded.'',
           SectionBlock (''See update details <https://expo.dev/accounts/nwac/projects/avalanche-forecast/updates/'' @ i @ ''|here>.'')])"
    by (simp add: update_blocksFor_def sampleUpdatePayload_def PlatformEmoji_def
        PlatformDisplay_def StatusEmoji_def StatusDisplay_def display_consts)
  have ch: "SlackChannel sampleConfig = ''#builds''"
    by (simp add: sampleConfig_def)
  have last: "update_handlePayload sampleWorld sampleConfig [?u8, ?u7]
      = ([CallFetchUpdates ''app'' ''main'' 10 0,
          CallPostMessage ''#builds''
            [HeaderBlock '':arrows_counterclockwise::apple_logo::large_green_circle:| iOS OTA update succeeded.'',
             SectionBlock ''See update details <https://expo.dev/accounts/nwac/projects/avalanche-forecast/updates/u7|here>.'']],
         Returned)"
    using preview_update_skipped [OF a b, where cfg = sampleConfig and before = "[]"
        and after = "[]" and v = ?u7 and rest = "[]"] c
    by (simp del: update_handlePayload.simps(2) add: f g orNil_def ch)
  have skip: "update_handlePayload sampleWorld sampleConfig [?u7]
      = update_handlePayload sampleWorld sampleConfig [?u8, ?u7]"
    using preview_update_skipped [OF a b, where cfg = sampleConfig and before = "[]"
        and after = "[?u7]" and v = ?u7 and rest = "[]"]
    by (simp del: update_handlePayload.simps(2))
  have one: "update_handlePayload sampleWorld sampleConfig [?u8] = ([], Returned)"
    using preview_update_skipped [OF a b, where cfg = sampleConfig and before = "[]"
        and after = "[]" and v = ?u7 and rest = "[]"]
    by (simp del: update_handlePayload.simps(2))
  have all: "update_handlePayload sampleWorld sampleConfig [?u8, ?u9, ?u7]
      = ([CallFetchUpdates ''app'' ''main'' 10 0,
          CallPostMessage ''#builds''
            [HeaderBlock '':arrows_counterclockwise::apple_logo::large_green_circle:| iOS OTA update succeeded.'',
             SectionBlock ''See update details <https://expo.dev/accounts/nwac/projects/avalanche-forecast/updates/u9|here>.''],
          CallFetchUpdates ''app'' ''main'' 10 0,
          CallPostMessage ''#builds''
            [HeaderBlock '':arrows_counterclockwise::apple_logo::large_green_circle:| iOS OTA update succeeded.'',
             SectionBlock ''See update details <https://expo.dev/accounts/nwac/projects/avalanche-forecast/updates/u7|here>.'']],
         Returned)"
    using preview_update_skipped [OF a b, where cfg = sampleConfig and before = "[]"
        and after = "[]" and v = ?u9 and rest = "[?u7]"] c
    by (simp del: update_handlePayload.simps(2) add: f g orNil_def ch skip last)
  from a b c one all show ?thesis by simp
qed


text \<open>
  Claim C6, at the input where the code leaves it. A duration of 360 days less one
  nanosecond is less than twelve 30-day months, and its truncated quotient by a month
  is 11; \<open>Hours\<close> rounds it to exactly 8640 hours in \<open>float64\<close>, so both copies of
  \<open>formatDuration\<close> render 12 months.
\<close>

theorem formatDuration_below_boundary:
  "31103999999999999 = 360 * 24 * Hour - 1
   \<and> tdiv 31103999999999999 (30 * 24 * Hour) = 11
   \<and> update_formatDuration 31103999999999999 = ''12 months''
   \<and> build_formatDuration 31103999999999999 = ''12 months''"
  by (simp add: update_formatDuration_def build_formatDuration_def Hour_def Minute_def Second_def
      months_below_360d itoa_eval tdiv_def)

end
